theory Spec2Isabelle
  imports Complex_Main
begin

section \<open>Data model of \<open>instructor_embedding_instruction.py\<close>\<close>

text \<open>
  The script embeds the rows of some JSON data files with an instruction-conditioned
  model, groups the vectors (KMeans, or the nearest of some query vectors), projects
  them to two dimensions and draws one scatter series per group.

  Python exceptions are values of \<open>error\<close>; a function that may raise returns
  \<open>error + 'a\<close> with \<open>Inl\<close> the exception.
\<close>

datatype error =
    AssertionError
  | KeyError string
  | ValueError
  | IndexError
  | ExternalError string

text \<open>
  A row of a dataset is a Python dict from column names to text. A \<open>Dataset\<close> object
  holds its rows and, beside them, what identifies the object to the library: its
  fingerprint, which comes from the files behind it and the operations that made it.
  Two objects with the same rows and different fingerprints are different objects. A
  sentence is the pair \<open>(instruction, text)\<close> handed to the model.
\<close>

type_synonym example = "(string \<times> string) list"
type_synonym sentence = "string \<times> string"

record Dataset =
  rows :: "example list"
  fingerprint :: string

text \<open>The dataclass \<open>Args\<close> (lines 23-33), with the types Python has at run time.\<close>

record Args =
  data_files :: "string list"
  instruction :: string
  model_key :: string
  embedding_mode :: string
  queries :: "string list"
  query_instruction :: "string option"
  batch_size :: int
  n_clusters :: "int option"

text \<open>
  The libraries the script calls are parameters: \<open>'m\<close> is the model handle, \<open>'v\<close> an
  embedding vector, \<open>'s\<close> a similarity score and \<open>'c\<close> a plot coordinate.
  \<open>SRC_INSTRUCT_ILLUSTRATION_PROMPT\<close> is the template of
  \<open>magicoder.prompt_template\<close>, applied to the problem and the solution. Of the two
  concatenations only what the script relies on is fixed below; when they refuse their
  arguments is left to the libraries: \<open>features_conflict\<close> says that
  \<open>concatenate_datasets\<close> finds the features of the datasets not to align,
  \<open>shapes_conflict\<close> that \<open>np.concatenate\<close> finds arrays of different width or rank, and
  \<open>concatenated_fingerprint\<close> is the fingerprint of the combined dataset.
\<close>

record ('m, 'v, 's, 'c) collaborators =
  load_dataset :: "string \<Rightarrow> error + Dataset"
  INSTRUCTOR :: "string \<Rightarrow> error + 'm"
  encode :: "'m \<Rightarrow> sentence list \<Rightarrow> int \<Rightarrow> error + 'v list"
  cos_sim :: "'v \<Rightarrow> 'v \<Rightarrow> 's"
  KMeans_fit_predict :: "int \<Rightarrow> 'v list \<Rightarrow> error + int list"
  TSNE_fit_transform :: "'v list \<Rightarrow> error + ('c \<times> 'c) list"
  np_mean :: "'c list \<Rightarrow> 'c"
  SRC_INSTRUCT_ILLUSTRATION_PROMPT :: "string \<Rightarrow> string \<Rightarrow> string"
  features_conflict :: "Dataset list \<Rightarrow> bool"
  concatenated_fingerprint :: "Dataset list \<Rightarrow> string"
  shapes_conflict :: "'v list list \<Rightarrow> bool"

text \<open>
  The state a run reads and writes: the joblib store \<open>MEM\<close> (line 17), from the cache
  key to the stored matrix, and the log of the calls of \<open>model.encode\<close>, oldest first.
  The decorator of line 36 ignores \<open>model\<close> and \<open>batch_size\<close>, so the key is the
  remaining arguments: \<open>_model_name\<close>, \<open>embedding_mode\<close>, \<open>dataset\<close>, \<open>instruction\<close>.
  joblib hashes the \<open>Dataset\<close> object as it is pickled, fingerprint included, so the
  key holds the object and not only its rows.
\<close>

type_synonym cache_key = "string \<times> string \<times> Dataset \<times> string"

record ('m, 'v) world =
  MEM :: "(cache_key \<times> 'v list) list"
  encode_calls :: "('m \<times> sentence list \<times> int) list"

text \<open>The values of the type \<open>EmbeddingMode\<close> (line 20).\<close>

definition EmbeddingMode :: "string list" where
  "EmbeddingMode = [''seed'', ''problem'', ''solution'', ''problem-solution'']"

definition cache_key_of :: "'m \<Rightarrow> string \<Rightarrow> string \<Rightarrow> Dataset \<Rightarrow> string \<Rightarrow> int \<Rightarrow> cache_key" where
  "cache_key_of model model_name mode ds instr bs = (model_name, mode, ds, instr)"

section \<open>The embedding of one dataset (lines 36-64)\<close>

definition getitem :: "example \<Rightarrow> string \<Rightarrow> error + string" where
  "getitem ex k = (case map_of ex k of None \<Rightarrow> Inl (KeyError k) | Some text \<Rightarrow> Inr text)"

definition map_fn :: "(string \<Rightarrow> string \<Rightarrow> string) \<Rightarrow> string \<Rightarrow> string \<Rightarrow> example \<Rightarrow> error + sentence" where
  "map_fn prompt mode instr ex =
     (if mode = ''seed'' then
        (case getitem ex ''seed'' of Inl e \<Rightarrow> Inl e | Inr text \<Rightarrow> Inr (instr, text))
      else if mode = ''problem'' then
        (case getitem ex ''problem'' of Inl e \<Rightarrow> Inl e | Inr text \<Rightarrow> Inr (instr, text))
      else if mode = ''solution'' then
        (case getitem ex ''solution'' of Inl e \<Rightarrow> Inl e | Inr text \<Rightarrow> Inr (instr, text))
      else if mode = ''problem-solution'' then
        (case getitem ex ''problem'' of Inl e \<Rightarrow> Inl e | Inr p \<Rightarrow>
         (case getitem ex ''solution'' of Inl e \<Rightarrow> Inl e | Inr sol \<Rightarrow>
            Inr (instr, prompt p sol)))
      else Inl AssertionError)"

text \<open>\<open>dataset.map(map_fn)\<close>: the function is applied row by row and the first exception ends it.\<close>

fun Dataset_map :: "(example \<Rightarrow> error + 'a) \<Rightarrow> example list \<Rightarrow> error + 'a list" where
  "Dataset_map f [] = Inr []"
| "Dataset_map f (ex # rest) =
     (case f ex of
        Inl e \<Rightarrow> Inl e
      | Inr y \<Rightarrow> (case Dataset_map f rest of Inl e \<Rightarrow> Inl e | Inr ys \<Rightarrow> Inr (y # ys)))"

text \<open>
  The body of \<open>get_dataset_embedding\<close>, run on a cache miss. \<open>Dataset.map\<close> returns a
  dataset without rows as it is, so it has no column \<open>pair\<close> then and
  \<open>to_dict()["pair"]\<close> raises \<open>KeyError\<close>. Otherwise the sentences go to
  \<open>model.encode\<close>, whose call is logged.
\<close>

definition embedding_body ::
  "('m, 'v, 's, 'c) collaborators \<Rightarrow> 'm \<Rightarrow> string \<Rightarrow> Dataset \<Rightarrow> string \<Rightarrow> int \<Rightarrow>
   ('m, 'v) world \<Rightarrow> (error + 'v list) \<times> ('m, 'v) world" where
  "embedding_body env model mode ds instr bs s =
     (case Dataset_map (map_fn (SRC_INSTRUCT_ILLUSTRATION_PROMPT env) mode instr) (rows ds) of
        Inl e \<Rightarrow> (Inl e, s)
      | Inr sentences \<Rightarrow>
          if rows ds = [] then (Inl (KeyError ''pair''), s)
          else (encode env model sentences bs,
                s\<lparr>encode_calls := encode_calls s @ [(model, sentences, bs)]\<rparr>))"

text \<open>
  \<open>get_dataset_embedding\<close> under \<open>@MEM.cache\<close>: a hit returns the stored matrix and
  runs nothing; a miss runs the body and stores what it returns (an exception stores
  nothing).
\<close>

definition get_dataset_embedding ::
  "('m, 'v, 's, 'c) collaborators \<Rightarrow> 'm \<Rightarrow> string \<Rightarrow> string \<Rightarrow> Dataset \<Rightarrow> string \<Rightarrow> int \<Rightarrow>
   ('m, 'v) world \<Rightarrow> (error + 'v list) \<times> ('m, 'v) world" where
  "get_dataset_embedding env model model_name mode ds instr bs s =
     (let key = cache_key_of model model_name mode ds instr bs in
      case map_of (MEM s) key of
        Some embeddings \<Rightarrow> (Inr embeddings, s)
      | None \<Rightarrow>
          (case embedding_body env model mode ds instr bs s of
             (Inl e, s') \<Rightarrow> (Inl e, s')
           | (Inr embeddings, s') \<Rightarrow> (Inr embeddings, s'\<lparr>MEM := (key, embeddings) # MEM s'\<rparr>)))"

section \<open>The embedding of all data files (lines 67-88)\<close>

text \<open>
  The loop of lines 72-84 over \<open>args.data_files\<close>, with the two accumulators.
\<close>

fun embed_files ::
  "('m, 'v, 's, 'c) collaborators \<Rightarrow> Args \<Rightarrow> string \<Rightarrow> 'm \<Rightarrow> string list \<Rightarrow>
   Dataset list \<Rightarrow> 'v list list \<Rightarrow> ('m, 'v) world \<Rightarrow>
   (error + Dataset list \<times> 'v list list) \<times> ('m, 'v) world" where
  "embed_files env args instr model [] all_datasets all_embeddings s =
     (Inr (all_datasets, all_embeddings), s)"
| "embed_files env args instr model (data_file # rest) all_datasets all_embeddings s =
     (case load_dataset env data_file of
        Inl e \<Rightarrow> (Inl e, s)
      | Inr raw_dataset \<Rightarrow>
          (case get_dataset_embedding env model (model_key args) (embedding_mode args)
                  raw_dataset instr (batch_size args) s of
             (Inl e, s') \<Rightarrow> (Inl e, s')
           | (Inr embeddings, s') \<Rightarrow>
               embed_files env args instr model rest
                 (all_datasets @ [raw_dataset]) (all_embeddings @ [embeddings]) s'))"

text \<open>
  \<open>concatenate_datasets\<close> (line 86) raises \<open>ValueError\<close> on an empty list and when the
  features of the datasets do not align; otherwise the combined dataset has the rows of
  the datasets in list order.
\<close>

definition concatenate_datasets ::
  "('m, 'v, 's, 'c) collaborators \<Rightarrow> Dataset list \<Rightarrow> error + Dataset" where
  "concatenate_datasets env dsets =
     (if dsets = [] then Inl ValueError
      else if features_conflict env dsets then Inl ValueError
      else Inr \<lparr>rows = concat (map rows dsets),
                fingerprint = concatenated_fingerprint env dsets\<rparr>)"

text \<open>
  \<open>np.concatenate(..., axis=0)\<close> (line 87) raises \<open>ValueError\<close> on an empty list and
  when the arrays differ in width or rank; otherwise the combined array has the rows of
  the arrays in list order.
\<close>

definition np_concatenate ::
  "('m, 'v, 's, 'c) collaborators \<Rightarrow> 'v list list \<Rightarrow> error + 'v list" where
  "np_concatenate env arrays =
     (if arrays = [] then Inl ValueError
      else if shapes_conflict env arrays then Inl ValueError
      else Inr (concat arrays))"

text \<open>
  \<open>get_dataset_embeddings\<close>: the loop, then the two concatenations (lines 86-88).
  Nothing is compared after them.
\<close>

definition get_dataset_embeddings ::
  "('m, 'v, 's, 'c) collaborators \<Rightarrow> Args \<Rightarrow> string \<Rightarrow> 'm \<Rightarrow> ('m, 'v) world \<Rightarrow>
   (error + Dataset \<times> 'v list) \<times> ('m, 'v) world" where
  "get_dataset_embeddings env args instr model s =
     (case embed_files env args instr model (data_files args) [] [] s of
        (Inl e, s') \<Rightarrow> (Inl e, s')
      | (Inr (all_datasets, all_embeddings), s') \<Rightarrow>
          (case concatenate_datasets env all_datasets of
             Inl e \<Rightarrow> (Inl e, s')
           | Inr raw_dataset \<Rightarrow>
               (case np_concatenate env all_embeddings of
                  Inl e \<Rightarrow> (Inl e, s')
                | Inr embeddings \<Rightarrow> (Inr (raw_dataset, embeddings), s'))))"

section \<open>Grouping (lines 93-124)\<close>

text \<open>The assertions of lines 93-99 and the choice of the method.\<close>

definition validate :: "Args \<Rightarrow> error + string" where
  "validate args =
     (if \<not> (length (queries args) \<noteq> 0 \<or> n_clusters args \<noteq> None) then Inl AssertionError
      else
        let method = (if length (queries args) = 0 then ''cluster'' else ''query'') in
        if method = ''query'' then
          (if query_instruction args = None then Inl AssertionError else Inr method)
        else if method \<noteq> ''cluster'' then Inl AssertionError
        else if n_clusters args = None then Inl AssertionError
        else Inr method)"

text \<open>\<open>labels.max()\<close> and \<open>labels.min()\<close>: \<open>ValueError\<close> on an array without elements.\<close>

definition np_max :: "int list \<Rightarrow> error + int" where
  "np_max xs = (if xs = [] then Inl ValueError else Inr (Max (set xs)))"

definition np_min :: "int list \<Rightarrow> error + int" where
  "np_min xs = (if xs = [] then Inl ValueError else Inr (Min (set xs)))"

text \<open>The two assertions after the labels are assigned (lines 107-108 and 122-123).\<close>

definition check_labels :: "int list \<Rightarrow> int \<Rightarrow> error + unit" where
  "check_labels labels n =
     (case np_max labels of
        Inl e \<Rightarrow> Inl e
      | Inr mx \<Rightarrow>
          if mx \<noteq> n - 1 then Inl AssertionError
          else (case np_min labels of
                  Inl e \<Rightarrow> Inl e
                | Inr mn \<Rightarrow> if mn \<noteq> 0 then Inl AssertionError else Inr ()))"

text \<open>
  The cluster branch: the labels of KMeans and the number of groups (lines 104-106 and
  109), and the branch with its two assertions (lines 107-108).
\<close>

definition kmeans_assign ::
  "('m, 'v, 's, 'c) collaborators \<Rightarrow> Args \<Rightarrow> 'v list \<Rightarrow> error + int list \<times> int" where
  "kmeans_assign env args embeddings =
     (case n_clusters args of
        None \<Rightarrow> Inl AssertionError
      | Some n \<Rightarrow>
          (case KMeans_fit_predict env n embeddings of
             Inl e \<Rightarrow> Inl e
           | Inr labels \<Rightarrow> Inr (labels, n)))"

definition cluster_labels ::
  "('m, 'v, 's, 'c) collaborators \<Rightarrow> Args \<Rightarrow> 'v list \<Rightarrow> error + int list \<times> int" where
  "cluster_labels env args embeddings =
     (case kmeans_assign env args embeddings of
        Inl e \<Rightarrow> Inl e
      | Inr (labels, n) \<Rightarrow>
          (case check_labels labels n of
             Inl e \<Rightarrow> Inl e
           | Inr _ \<Rightarrow> Inr (labels, n)))"

text \<open>
  \<open>np.argmax\<close>: the index of the first occurrence of the greatest element, found by one
  scan that keeps the best element so far and replaces it only by a strictly greater one.
\<close>

fun argmax_scan :: "'s::linorder \<Rightarrow> nat \<Rightarrow> nat \<Rightarrow> 's list \<Rightarrow> nat" where
  "argmax_scan best k i [] = k"
| "argmax_scan best k i (x # xs) =
     (if best < x then argmax_scan x i (Suc i) xs else argmax_scan best k (Suc i) xs)"

definition np_argmax :: "'s::linorder list \<Rightarrow> error + nat" where
  "np_argmax xs = (case xs of [] \<Rightarrow> Inl ValueError | x # rest \<Rightarrow> Inr (argmax_scan x 0 1 rest))"

text \<open>
  \<open>get_label\<close> (lines 115-119): the similarities of one embedding to every query
  embedding, the assertion on their number, and the argmax.
\<close>

definition get_label ::
  "('m, 'v, 's::linorder, 'c) collaborators \<Rightarrow> 'v list \<Rightarrow> nat \<Rightarrow> 'v \<Rightarrow> error + nat" where
  "get_label env query_embeddings n_queries embedding =
     (let similarities = map (cos_sim env embedding) query_embeddings in
      if length similarities \<noteq> n_queries then Inl AssertionError
      else np_argmax similarities)"

text \<open>The list comprehension of line 121: the first exception ends it.\<close>

fun get_labels ::
  "('m, 'v, 's::linorder, 'c) collaborators \<Rightarrow> 'v list \<Rightarrow> nat \<Rightarrow> 'v list \<Rightarrow> error + int list" where
  "get_labels env query_embeddings n_queries [] = Inr []"
| "get_labels env query_embeddings n_queries (embedding # rest) =
     (case get_label env query_embeddings n_queries embedding of
        Inl e \<Rightarrow> Inl e
      | Inr l \<Rightarrow>
          (case get_labels env query_embeddings n_queries rest of
             Inl e \<Rightarrow> Inl e
           | Inr ls \<Rightarrow> Inr (int l # ls)))"

text \<open>
  The query branch. \<open>validate\<close> has checked that \<open>query_instruction\<close> is not
  \<open>None\<close>; the query embeddings are computed by one logged call of \<open>model.encode\<close>
  that goes past the cache. First the labels and the number of groups (lines 111-121
  and 124), then the branch with its two assertions (lines 122-123).
\<close>

definition query_assign ::
  "('m, 'v, 's::linorder, 'c) collaborators \<Rightarrow> Args \<Rightarrow> 'm \<Rightarrow> 'v list \<Rightarrow> ('m, 'v) world \<Rightarrow>
   (error + int list \<times> int) \<times> ('m, 'v) world" where
  "query_assign env args model embeddings s =
     (case query_instruction args of
        None \<Rightarrow> (Inl AssertionError, s)
      | Some qi \<Rightarrow>
          let qs = map (\<lambda>query. (qi, query)) (queries args);
              s' = s\<lparr>encode_calls := encode_calls s @ [(model, qs, batch_size args)]\<rparr>
          in (case encode env model qs (batch_size args) of
                Inl e \<Rightarrow> (Inl e, s')
              | Inr query_embeddings \<Rightarrow>
                  (case get_labels env query_embeddings (length qs) embeddings of
                     Inl e \<Rightarrow> (Inl e, s')
                   | Inr labels \<Rightarrow> (Inr (labels, int (length qs)), s'))))"

definition query_labels ::
  "('m, 'v, 's::linorder, 'c) collaborators \<Rightarrow> Args \<Rightarrow> 'm \<Rightarrow> 'v list \<Rightarrow> ('m, 'v) world \<Rightarrow>
   (error + int list \<times> int) \<times> ('m, 'v) world" where
  "query_labels env args model embeddings s =
     (case query_assign env args model embeddings s of
        (Inl e, s') \<Rightarrow> (Inl e, s')
      | (Inr (labels, n), s') \<Rightarrow>
          (case check_labels labels n of
             Inl e \<Rightarrow> (Inl e, s')
           | Inr _ \<Rightarrow> (Inr (labels, n), s')))"

section \<open>Visualization (lines 125-151)\<close>

datatype 'c plot_cmd =
    Scatter "'c list" "'c list" string
  | ScatterMarker 'c 'c
  | Legend
  | Title string
  | Savefig string

definition py_range :: "int \<Rightarrow> int list" where
  "py_range n = map int [0..<nat n]"

text \<open>\<open>np.where(labels == label)[0].tolist()\<close>: the positions that carry the label.\<close>

definition np_where :: "int list \<Rightarrow> int \<Rightarrow> nat list" where
  "np_where labels label = filter (\<lambda>i. labels ! i = label) [0..<length labels]"

text \<open>\<open>xs[indices_for_label]\<close>: \<open>IndexError\<close> when a position is past the end.\<close>

definition np_take :: "'c list \<Rightarrow> nat list \<Rightarrow> error + 'c list" where
  "np_take xs idx =
     (if list_all (\<lambda>i. i < length xs) idx then Inr (map (\<lambda>i. xs ! i) idx) else Inl IndexError)"

text \<open>\<open>str\<close> of an integer, for the f-string of line 143.\<close>

fun str_nat :: "nat \<Rightarrow> string" where
  "str_nat n =
     (if n < 10 then [''0123456789'' ! n]
      else str_nat (n div 10) @ [''0123456789'' ! (n mod 10)])"

definition str_int :: "int \<Rightarrow> string" where
  "str_int i = (if i < 0 then ''-'' @ str_nat (nat (- i)) else str_nat (nat i))"

definition legend_label :: "Args \<Rightarrow> string \<Rightarrow> int \<Rightarrow> string" where
  "legend_label args method label =
     (if method = ''cluster'' then ''Cluster '' @ str_int (label + 1)
      else queries args ! nat label)"

text \<open>The loop of lines 138-148: per label, the series of its points and then the marker.\<close>

fun plot_loop ::
  "('m, 'v, 's, 'c) collaborators \<Rightarrow> Args \<Rightarrow> string \<Rightarrow> int list \<Rightarrow> 'c list \<Rightarrow> 'c list \<Rightarrow>
   int list \<Rightarrow> error + 'c plot_cmd list" where
  "plot_loop env args method labels xs ys [] = Inr []"
| "plot_loop env args method labels xs ys (label # rest) =
     (let indices_for_label = np_where labels label in
      case np_take xs indices_for_label of
        Inl e \<Rightarrow> Inl e
      | Inr x \<Rightarrow>
          (case np_take ys indices_for_label of
             Inl e \<Rightarrow> Inl e
           | Inr y \<Rightarrow>
               (case plot_loop env args method labels xs ys rest of
                  Inl e \<Rightarrow> Inl e
                | Inr cmds \<Rightarrow>
                    Inr (Scatter x y (legend_label args method label)
                         # ScatterMarker (np_mean env xs) (np_mean env ys) # cmds))))"

text \<open>Lines 125-151: the projection, the loop, and the legend, title and file.\<close>

definition plot_groups ::
  "('m, 'v, 's, 'c) collaborators \<Rightarrow> Args \<Rightarrow> string \<Rightarrow> 'v list \<Rightarrow> int list \<Rightarrow> int \<Rightarrow>
   error + 'c plot_cmd list" where
  "plot_groups env args method embeddings labels n =
     (case TSNE_fit_transform env embeddings of
        Inl e \<Rightarrow> Inl e
      | Inr vis_dims \<Rightarrow>
          (case plot_loop env args method labels (map fst vis_dims) (map snd vis_dims)
                  (py_range n) of
             Inl e \<Rightarrow> Inl e
           | Inr cmds \<Rightarrow>
               Inr (cmds @ [Legend, Title ''Visualization of Clusters'', Savefig ''clusters.png''])))"

section \<open>The run (lines 91-151)\<close>

definition main ::
  "('m, 'v, 's::linorder, 'c) collaborators \<Rightarrow> Args \<Rightarrow> ('m, 'v) world \<Rightarrow>
   (error + 'c plot_cmd list) \<times> ('m, 'v) world" where
  "main env args s =
     (case validate args of
        Inl e \<Rightarrow> (Inl e, s)
      | Inr method \<Rightarrow>
          (case INSTRUCTOR env (''hkunlp/'' @ model_key args) of
             Inl e \<Rightarrow> (Inl e, s)
           | Inr model \<Rightarrow>
               (case get_dataset_embeddings env args (instruction args) model s of
                  (Inl e, s1) \<Rightarrow> (Inl e, s1)
                | (Inr (ds, embeddings), s1) \<Rightarrow>
                    (case (if method = ''cluster''
                           then (cluster_labels env args embeddings, s1)
                           else query_labels env args model embeddings s1) of
                       (Inl e, s2) \<Rightarrow> (Inl e, s2)
                     | (Inr (labels, n), s2) \<Rightarrow>
                         (plot_groups env args method embeddings labels n, s2)))))"

section \<open>A small instance of the collaborators\<close>

text \<open>
  For the concrete runs below: two data files, a model that embeds a text by its first
  letter into one of three unit vectors (so the dot product of two embeddings is their
  cosine similarity), a clustering that reads the label off the vector, and a projection
  that keeps the first two coordinates.
\<close>

definition toy_vector :: "string \<Rightarrow> int list" where
  "toy_vector text =
     (if take 1 text = ''a'' then [1, 0, 0]
      else if take 1 text = ''b'' then [0, 1, 0]
      else [0, 0, 1])"

definition toy_dot :: "int list \<Rightarrow> int list \<Rightarrow> int" where
  "toy_dot u v = sum_list (map (\<lambda>(a, b). a * b) (zip u v))"

definition toy_axis :: "int list \<Rightarrow> int" where
  "toy_axis v = (if v = [1, 0, 0] then 0 else if v = [0, 1, 0] then 1 else 2)"

definition toy_rows :: "example list" where
  "toy_rows =
     [[(''problem'', ''a1''), (''solution'', ''b1'')],
      [(''problem'', ''c2''), (''solution'', ''b2'')]]"

definition toy_rows_b :: "example list" where
  "toy_rows_b = [[(''problem'', ''b3''), (''solution'', ''a3'')]]"

definition toy_data_a :: Dataset where
  "toy_data_a = \<lparr>rows = toy_rows, fingerprint = ''a.jsonl''\<rparr>"

definition toy_data_b :: Dataset where
  "toy_data_b = \<lparr>rows = toy_rows_b, fingerprint = ''b.jsonl''\<rparr>"

definition toy_files :: "string \<Rightarrow> error + Dataset" where
  "toy_files data_file =
     (if data_file = ''a.jsonl'' then Inr toy_data_a
      else if data_file = ''b.jsonl'' then Inr toy_data_b
      else Inl (ExternalError ''FileNotFoundError''))"

text \<open>What the toy model computes for one sentence, whatever the name of the model.\<close>

definition toy_embed :: "string \<Rightarrow> sentence \<Rightarrow> int list" where
  "toy_embed model_name = (\<lambda>(instr, text). toy_vector text)"

definition toy_env :: "(string, int list, int, real) collaborators" where
  "toy_env =
     \<lparr>load_dataset = toy_files,
      INSTRUCTOR = (\<lambda>name. Inr name),
      encode = (\<lambda>model sentences bs. Inr (map (\<lambda>(instr, text). toy_vector text) sentences)),
      cos_sim = toy_dot,
      KMeans_fit_predict = (\<lambda>n embeddings. Inr (map toy_axis embeddings)),
      TSNE_fit_transform =
        (\<lambda>embeddings. Inr (map (\<lambda>v. (real_of_int (v ! 0), real_of_int (v ! 1))) embeddings)),
      np_mean = (\<lambda>xs. sum_list xs / real (length xs)),
      SRC_INSTRUCT_ILLUSTRATION_PROMPT = (\<lambda>problem solution. problem @ '' '' @ solution),
      features_conflict = (\<lambda>dsets. False),
      concatenated_fingerprint = (\<lambda>dsets. concat (map fingerprint dsets)),
      shapes_conflict = (\<lambda>arrays. False)\<rparr>"

text \<open>The same, with a model that returns one row fewer than it was given sentences.\<close>

definition short_env :: "(string, int list, int, real) collaborators" where
  "short_env =
     toy_env\<lparr>encode := (\<lambda>model sentences bs.
        Inr (map (\<lambda>(instr, text). toy_vector text) (butlast sentences)))\<rparr>"

text \<open>The same, with a model whose vectors depend on the batch size it is called with.\<close>

definition batch_env :: "(string, int list, int, real) collaborators" where
  "batch_env =
     toy_env\<lparr>encode := (\<lambda>model sentences bs.
        Inr (map (\<lambda>(instr, text). map (\<lambda>x. x * bs) (toy_vector text)) sentences))\<rparr>"

definition toy_args :: Args where
  "toy_args =
     \<lparr>data_files = [''a.jsonl'', ''b.jsonl''],
      instruction = ''Represent the problem'',
      model_key = ''instructor-base'',
      embedding_mode = ''problem'',
      queries = [],
      query_instruction = None,
      batch_size = 32,
      n_clusters = Some 3\<rparr>"

text \<open>The nearest-query strategy with three queries, on the first file only.\<close>

definition toy_query_args :: Args where
  "toy_query_args =
     toy_args\<lparr>data_files := [''a.jsonl''],
              queries := [''a'', ''b'', ''c''],
              query_instruction := Some ''Represent the topic'',
              n_clusters := None\<rparr>"

definition empty_world :: "(string, int list) world" where
  "empty_world = \<lparr>MEM = [], encode_calls = []\<rparr>"

section \<open>Predicates on the cache, the model and the plot\<close>

text \<open>
  What holds of every store the script itself has filled: the mode of a stored key is
  one of \<open>EmbeddingMode\<close>; and, with \<open>f name\<close> the vector that the model called \<open>name\<close>
  computes for a sentence, a stored matrix holds, row by row, the vectors of the sentences
  derived from the rows of its key's dataset.
\<close>

definition cache_modes_ok :: "(cache_key \<times> 'v list) list \<Rightarrow> bool" where
  "cache_modes_ok mem =
     list_all (\<lambda>((model_name, mode, ds, instr), embeddings). mode \<in> set EmbeddingMode) mem"

definition cache_pointwise ::
  "(string \<Rightarrow> string \<Rightarrow> string) \<Rightarrow> (string \<Rightarrow> sentence \<Rightarrow> 'v) \<Rightarrow> (cache_key \<times> 'v list) list \<Rightarrow> bool" where
  "cache_pointwise prompt f mem =
     list_all (\<lambda>((model_name, mode, ds, instr), embeddings).
        case Dataset_map (map_fn prompt mode instr) (rows ds) of
          Inl e \<Rightarrow> False
        | Inr sentences \<Rightarrow> embeddings = map (f model_name) sentences) mem"

text \<open>
  The contract of \<open>model.encode\<close> for one model: whatever the batch size, the result has
  one vector per sentence, in the order of the sentences, and the vector of a sentence is
  \<open>g\<close> of that sentence.
\<close>

definition model_embeds :: "('m, 'v, 's, 'c) collaborators \<Rightarrow> 'm \<Rightarrow> (sentence \<Rightarrow> 'v) \<Rightarrow> bool" where
  "model_embeds env model g =
     (\<forall>sentences bs embeddings.
        encode env model sentences bs = Inr embeddings \<longrightarrow> embeddings = map g sentences)"

text \<open>The first row of file \<open>k\<close> in the concatenation of the files.\<close>

definition row_offset :: "'a list list \<Rightarrow> nat \<Rightarrow> nat" where
  "row_offset blocks k = sum_list (map length (take k blocks))"

fun is_marker :: "'c plot_cmd \<Rightarrow> bool" where
  "is_marker (ScatterMarker x y) = True"
| "is_marker cmd = False"

section \<open>Unfolding for the concrete runs\<close>

text \<open>The definitions of the small instance, for the concrete runs.\<close>

lemmas toy_run_defs = toy_env_def short_env_def batch_env_def toy_args_def empty_world_def
  toy_files_def toy_data_a_def toy_data_b_def toy_rows_def toy_rows_b_def toy_query_args_def
  toy_vector_def toy_dot_def toy_axis_def

text \<open>The definitions of the run, for the concrete runs.\<close>

lemmas toy_main_defs = main_def validate_def get_dataset_embeddings_def concatenate_datasets_def
  np_concatenate_def get_dataset_embedding_def embedding_body_def map_fn_def getitem_def cache_key_of_def cluster_labels_def kmeans_assign_def
  query_labels_def query_assign_def get_label_def np_argmax_def check_labels_def np_max_def
  np_min_def plot_groups_def py_range_def np_where_def np_take_def legend_label_def str_int_def

section \<open>The nearest query (lines 115-121)\<close>











section \<open>The cached embedding of one dataset (lines 36-64)\<close>

lemma Dataset_map_length:
  "Dataset_map F rs = Inr ys \<Longrightarrow> length ys = length rs"
  by (induction rs arbitrary: ys) (auto split: sum.splits)

lemma Dataset_map_rows:
  "Dataset_map F rs = Inr ys \<Longrightarrow> list_all2 (\<lambda>r y. F r = Inr y) rs ys"
  by (induction rs arbitrary: ys) (auto split: sum.splits)

lemma Dataset_map_unrecognized:
  "mode \<notin> set EmbeddingMode \<Longrightarrow> rs \<noteq> [] \<Longrightarrow>
   Dataset_map (map_fn prompt mode instr) rs = Inl AssertionError"
  by (cases rs) (simp_all add: map_fn_def EmbeddingMode_def)

text \<open>A hit returns the stored matrix; a miss runs the body and stores its matrix.\<close>

lemma get_dataset_embedding_hit:
  "map_of (MEM s) (model_name, mode, ds, instr) = Some embeddings \<Longrightarrow>
   get_dataset_embedding env model model_name mode ds instr bs s = (Inr embeddings, s)"
  by (simp add: get_dataset_embedding_def cache_key_of_def)

lemma get_dataset_embedding_miss:
  "map_of (MEM s) (model_name, mode, ds, instr) = None \<Longrightarrow>
   get_dataset_embedding env model model_name mode ds instr bs s =
     (case embedding_body env model mode ds instr bs s of
        (Inl e, s') \<Rightarrow> (Inl e, s')
      | (Inr embeddings, s') \<Rightarrow>
          (Inr embeddings, s'\<lparr>MEM := ((model_name, mode, ds, instr), embeddings) # MEM s'\<rparr>))"
  by (simp add: get_dataset_embedding_def cache_key_of_def)

lemma embedding_body_MEM:
  "embedding_body env model mode ds instr bs s = (r, s') \<Longrightarrow> MEM s' = MEM s"
  by (cases "Dataset_map (map_fn (SRC_INSTRUCT_ILLUSTRATION_PROMPT env) mode instr) (rows ds)")
     (auto simp: embedding_body_def split: if_splits)

lemma get_dataset_embedding_stored:
  assumes "get_dataset_embedding env model model_name mode ds instr bs s = (Inr embeddings, s')"
  shows "map_of (MEM s') (model_name, mode, ds, instr) = Some embeddings"
proof (cases "map_of (MEM s) (model_name, mode, ds, instr)")
  case (Some a)
  with assms get_dataset_embedding_hit [OF Some, of env model bs] show ?thesis by simp
next
  case None
  obtain r0 s0 where body: "embedding_body env model mode ds instr bs s = (r0, s0)"
    by (cases "embedding_body env model mode ds instr bs s")
  with assms get_dataset_embedding_miss [OF None, of env model bs] show ?thesis
    by (cases r0) auto
qed

text \<open>A call never changes what the store holds for a key that is already there.\<close>

lemma get_dataset_embedding_persists:
  assumes "get_dataset_embedding env model model_name mode ds instr bs s = (r, s')"
    and "map_of (MEM s) key = Some embeddings"
  shows "map_of (MEM s') key = Some embeddings"
proof (cases "map_of (MEM s) (model_name, mode, ds, instr)")
  case (Some a)
  with assms get_dataset_embedding_hit [OF Some, of env model bs] show ?thesis by simp
next
  case None
  obtain r0 s0 where body: "embedding_body env model mode ds instr bs s = (r0, s0)"
    by (cases "embedding_body env model mode ds instr bs s")
  from embedding_body_MEM [OF body] have mem: "MEM s0 = MEM s" .
  from None assms(2) have neq: "key \<noteq> (model_name, mode, ds, instr)" by auto
  from assms body mem neq get_dataset_embedding_miss [OF None, of env model bs] show ?thesis
    by (cases r0) auto
qed

text \<open>What the body has done when it returns a matrix.\<close>

lemma embedding_body_Inr:
  assumes "embedding_body env model mode ds instr bs s = (Inr embeddings, s')"
  shows "rows ds \<noteq> [] \<and> mode \<in> set EmbeddingMode \<and>
    (\<exists>sentences.
       Dataset_map (map_fn (SRC_INSTRUCT_ILLUSTRATION_PROMPT env) mode instr) (rows ds)
         = Inr sentences \<and>
       encode env model sentences bs = Inr embeddings)"
proof (cases "Dataset_map (map_fn (SRC_INSTRUCT_ILLUSTRATION_PROMPT env) mode instr) (rows ds)")
  case (Inl e)
  with assms show ?thesis by (simp add: embedding_body_def)
next
  case (Inr sentences)
  with assms have ne: "rows ds \<noteq> []" and enc: "encode env model sentences bs = Inr embeddings"
    by (auto simp: embedding_body_def split: if_splits)
  from Inr ne Dataset_map_unrecognized [of mode "rows ds" "SRC_INSTRUCT_ILLUSTRATION_PROMPT env" instr]
  have "mode \<in> set EmbeddingMode" by auto
  with ne enc Inr show ?thesis by blast
qed

text \<open>Both predicates on the store are kept by every call.\<close>

lemma get_dataset_embedding_modes_ok:
  assumes "get_dataset_embedding env model model_name mode ds instr bs s = (r, s')"
    and "cache_modes_ok (MEM s)"
  shows "cache_modes_ok (MEM s')"
proof (cases "map_of (MEM s) (model_name, mode, ds, instr)")
  case (Some a)
  with assms get_dataset_embedding_hit [OF Some, of env model bs] show ?thesis by simp
next
  case None
  obtain r0 s0 where body: "embedding_body env model mode ds instr bs s = (r0, s0)"
    by (cases "embedding_body env model mode ds instr bs s")
  from embedding_body_MEM [OF body] have mem: "MEM s0 = MEM s" .
  show ?thesis
  proof (cases r0)
    case (Inl e)
    with body assms mem get_dataset_embedding_miss [OF None, of env model bs] show ?thesis
      by auto
  next
    case (Inr m)
    with body embedding_body_Inr [of env model mode ds instr bs s m s0]
    have "mode \<in> set EmbeddingMode" by simp
    with Inr body assms mem get_dataset_embedding_miss [OF None, of env model bs] show ?thesis
      by (auto simp: cache_modes_ok_def)
  qed
qed

lemma get_dataset_embedding_pointwise:
  assumes "model_embeds env model (f model_name)"
    and "get_dataset_embedding env model model_name mode ds instr bs s = (r, s')"
    and "cache_pointwise (SRC_INSTRUCT_ILLUSTRATION_PROMPT env) f (MEM s)"
  shows "cache_pointwise (SRC_INSTRUCT_ILLUSTRATION_PROMPT env) f (MEM s') \<and>
    (\<forall>embeddings. r = Inr embeddings \<longrightarrow>
       (\<exists>sentences.
          Dataset_map (map_fn (SRC_INSTRUCT_ILLUSTRATION_PROMPT env) mode instr) (rows ds)
            = Inr sentences \<and>
          embeddings = map (f model_name) sentences))"
proof (cases "map_of (MEM s) (model_name, mode, ds, instr)")
  case (Some a)
  from map_of_SomeD [OF Some] assms(3) have entry:
    "case Dataset_map (map_fn (SRC_INSTRUCT_ILLUSTRATION_PROMPT env) mode instr) (rows ds) of
       Inl e \<Rightarrow> False | Inr sentences \<Rightarrow> a = map (f model_name) sentences"
    unfolding cache_pointwise_def list_all_iff by fastforce
  have "\<exists>sentences.
      Dataset_map (map_fn (SRC_INSTRUCT_ILLUSTRATION_PROMPT env) mode instr) (rows ds)
        = Inr sentences \<and> a = map (f model_name) sentences"
  proof (cases "Dataset_map (map_fn (SRC_INSTRUCT_ILLUSTRATION_PROMPT env) mode instr) (rows ds)")
    case (Inl e)
    with entry show ?thesis by simp
  next
    case (Inr sentences)
    with entry show ?thesis by simp
  qed
  then show ?thesis using assms get_dataset_embedding_hit [OF Some, of env model bs] by auto
next
  case None
  obtain r0 s0 where body: "embedding_body env model mode ds instr bs s = (r0, s0)"
    by (cases "embedding_body env model mode ds instr bs s")
  from embedding_body_MEM [OF body] have mem: "MEM s0 = MEM s" .
  show ?thesis
  proof (cases r0)
    case (Inl e)
    with body assms mem get_dataset_embedding_miss [OF None, of env model bs] show ?thesis
      by auto
  next
    case (Inr m)
    with body embedding_body_Inr [of env model mode ds instr bs s m s0] obtain sentences where
      ss: "Dataset_map (map_fn (SRC_INSTRUCT_ILLUSTRATION_PROMPT env) mode instr) (rows ds)
        = Inr sentences" and enc: "encode env model sentences bs = Inr m"
      by auto
    from enc assms(1) have m: "m = map (f model_name) sentences"
      by (simp add: model_embeds_def)
    from Inr body assms(2) get_dataset_embedding_miss [OF None, of env model bs]
    have r: "r = Inr m" and s': "s' = s0\<lparr>MEM := ((model_name, mode, ds, instr), m) # MEM s0\<rparr>"
      by simp_all
    from s' mem assms(3) ss m
    have "cache_pointwise (SRC_INSTRUCT_ILLUSTRATION_PROMPT env) f (MEM s')"
      by (simp add: cache_pointwise_def)
    with r ss m show ?thesis by blast
  qed
qed


text \<open>
  C2, as the code has it. Two invocations of \<open>get_dataset_embedding\<close> with the same model
  name, embedding mode, \<open>Dataset\<close> object and instruction return the same matrix,
  whatever the two batch sizes and the two model handles (and whatever the model would
  compute the second time), when the second runs on a store that holds for this key what
  the first left there: it is a hit and returns that matrix without running anything.
  The cache key is the same for both; it leaves out the model handle and the batch size,
  and two keys are equal exactly when the model names, the modes, the rows and the
  fingerprints of the datasets, and the instructions are.
\<close>

theorem same_key_same_matrix:
  assumes "get_dataset_embedding env1 model1 model_name mode ds instr bs1 s = (Inr embeddings, s1)"
    and "map_of (MEM t) (model_name, mode, ds, instr) = map_of (MEM s1) (model_name, mode, ds, instr)"
  shows "get_dataset_embedding env2 model2 model_name mode ds instr bs2 t = (Inr embeddings, t) \<and>
    cache_key_of model1 model_name mode ds instr bs1 = cache_key_of model2 model_name mode ds instr bs2 \<and>
    ((cache_key_of model1 model_name mode ds instr bs1 = cache_key_of model' model_name' mode' ds' instr' bs')
       = (model_name = model_name' \<and> mode = mode' \<and> rows ds = rows ds' \<and>
          fingerprint ds = fingerprint ds' \<and> instr = instr'))"
proof -
  from get_dataset_embedding_stored [OF assms(1)] assms(2)
  have "map_of (MEM t) (model_name, mode, ds, instr) = Some embeddings" by simp
  from get_dataset_embedding_hit [OF this, of env2 model2 bs2] show ?thesis
    by (auto simp: cache_key_of_def)
qed

text \<open>
  A first call with batch size 32 on the empty store, then a call with another handle,
  batch size 1 and the model that would return a row too few: the same two rows.
\<close>

theorem same_key_same_matrix_witness:
  "get_dataset_embedding toy_env ''handle 1'' ''instructor-base'' ''problem'' toy_data_a ''i'' 32 empty_world
     = (Inr [[1, 0, 0], [0, 0, 1]],
        \<lparr>MEM = [((''instructor-base'', ''problem'', toy_data_a, ''i''), [[1, 0, 0], [0, 0, 1]])],
         encode_calls = [(''handle 1'', [(''i'', ''a1''), (''i'', ''c2'')], 32)]\<rparr>) \<and>
   get_dataset_embedding short_env ''handle 2'' ''instructor-base'' ''problem'' toy_data_a ''i'' 1
       \<lparr>MEM = [((''instructor-base'', ''problem'', toy_data_a, ''i''), [[1, 0, 0], [0, 0, 1]])],
        encode_calls = [(''handle 1'', [(''i'', ''a1''), (''i'', ''c2'')], 32)]\<rparr>
     = (Inr [[1, 0, 0], [0, 0, 1]],
        \<lparr>MEM = [((''instructor-base'', ''problem'', toy_data_a, ''i''), [[1, 0, 0], [0, 0, 1]])],
         encode_calls = [(''handle 1'', [(''i'', ''a1''), (''i'', ''c2'')], 32)]\<rparr>)"
proof -
  have first: "get_dataset_embedding toy_env ''handle 1'' ''instructor-base'' ''problem'' toy_data_a ''i'' 32 empty_world
     = (Inr [[1, 0, 0], [0, 0, 1]],
        \<lparr>MEM = [((''instructor-base'', ''problem'', toy_data_a, ''i''), [[1, 0, 0], [0, 0, 1]])],
         encode_calls = [(''handle 1'', [(''i'', ''a1''), (''i'', ''c2'')], 32)]\<rparr>)"
    by (simp add: get_dataset_embedding_def embedding_body_def map_fn_def getitem_def
        cache_key_of_def toy_run_defs)
  from same_key_same_matrix [OF first refl, where ?env2.0 = short_env and ?model2.0 = "''handle 2''"
      and ?bs2.0 = 1]
  have "get_dataset_embedding short_env ''handle 2'' ''instructor-base'' ''problem'' toy_data_a ''i'' 1
       \<lparr>MEM = [((''instructor-base'', ''problem'', toy_data_a, ''i''), [[1, 0, 0], [0, 0, 1]])],
        encode_calls = [(''handle 1'', [(''i'', ''a1''), (''i'', ''c2'')], 32)]\<rparr>
     = (Inr [[1, 0, 0], [0, 0, 1]],
        \<lparr>MEM = [((''instructor-base'', ''problem'', toy_data_a, ''i''), [[1, 0, 0], [0, 0, 1]])],
         encode_calls = [(''handle 1'', [(''i'', ''a1''), (''i'', ''c2'')], 32)]\<rparr>)"
    by (rule conjunct1)
  with first show ?thesis by (intro conjI)
qed

text \<open>
  C2 as stated fails, with a model whose vectors depend on the batch size. A dataset
  with the same rows from another file is another key: the second call, on the store
  the first left, misses, runs the model with its own batch size and returns another
  matrix. And two calls with the very same arguments but the batch size, each on the
  empty store, both run the model and return different matrices.
\<close>

theorem equal_rows_are_encoded_again:
  "rows (toy_data_a\<lparr>fingerprint := ''copy.jsonl''\<rparr>) = rows toy_data_a \<and>
   fst (get_dataset_embedding batch_env ''handle'' ''instructor-base'' ''problem'' toy_data_a ''i'' 2
          empty_world)
     = Inr [[2, 0, 0], [0, 0, 2]] \<and>
   fst (get_dataset_embedding batch_env ''handle'' ''instructor-base'' ''problem''
          (toy_data_a\<lparr>fingerprint := ''copy.jsonl''\<rparr>) ''i'' 1
          (snd (get_dataset_embedding batch_env ''handle'' ''instructor-base'' ''problem''
                  toy_data_a ''i'' 2 empty_world)))
     = Inr [[1, 0, 0], [0, 0, 1]] \<and>
   fst (get_dataset_embedding batch_env ''handle'' ''instructor-base'' ''problem'' toy_data_a ''i'' 1
          empty_world)
     = Inr [[1, 0, 0], [0, 0, 1]]"
  by (simp add: get_dataset_embedding_def embedding_body_def map_fn_def getitem_def
      cache_key_of_def toy_run_defs)

text \<open>
  C6. For every embedding mode outside \<open>seed\<close>, \<open>problem\<close>, \<open>solution\<close> and
  \<open>problem-solution\<close>, \<open>map_fn\<close> raises \<open>AssertionError\<close> on every row (there is no
  default mode), and \<open>get_dataset_embedding\<close>, on a store whose keys have recognized
  modes, raises before \<open>model.encode\<close> is called: the store and the log of the encode
  calls are as before. On a dataset with rows the error is the \<open>AssertionError\<close> of the
  first row; on a dataset without rows \<open>map_fn\<close> never runs and the error is the
  \<open>KeyError\<close> of the missing column \<open>pair\<close>.
\<close>

theorem unrecognized_mode_raises_before_encode:
  assumes "mode \<notin> set EmbeddingMode" and "cache_modes_ok (MEM s)"
  shows "get_dataset_embedding env model model_name mode ds instr bs s
      = (Inl (if rows ds = [] then KeyError ''pair'' else AssertionError), s) \<and>
    (\<forall>ex. map_fn prompt mode instr ex = Inl AssertionError)"
proof -
  have miss: "map_of (MEM s) (model_name, mode, ds, instr) = None"
  proof (cases "map_of (MEM s) (model_name, mode, ds, instr)")
    case None
    then show ?thesis .
  next
    case (Some a)
    from map_of_SomeD [OF Some] assms show ?thesis
      by (auto simp: cache_modes_ok_def list_all_iff)
  qed
  have body: "embedding_body env model mode ds instr bs s
      = (Inl (if rows ds = [] then KeyError ''pair'' else AssertionError), s)"
    using Dataset_map_unrecognized [OF assms(1), of "rows ds"]
    by (cases "rows ds = []") (simp_all add: embedding_body_def)
  have "\<forall>ex. map_fn prompt mode instr ex = Inl AssertionError"
    using assms(1) by (simp add: map_fn_def EmbeddingMode_def)
  with body get_dataset_embedding_miss [OF miss, of env model bs] show ?thesis
    by simp
qed

text \<open>The mode \<open>bogus\<close> on the empty store, with two rows and with none.\<close>

theorem unrecognized_mode_raises_before_encode_witness:
  "(''bogus'' \<notin> set EmbeddingMode \<and> cache_modes_ok (MEM empty_world)) \<and>
   get_dataset_embedding toy_env ''handle'' ''instructor-base'' ''bogus'' toy_data_a ''i'' 32 empty_world
     = (Inl AssertionError, empty_world) \<and>
   get_dataset_embedding toy_env ''handle'' ''instructor-base'' ''bogus''
       \<lparr>rows = [], fingerprint = ''empty.jsonl''\<rparr> ''i'' 32 empty_world
     = (Inl (KeyError ''pair''), empty_world) \<and>
   encode_calls empty_world = []"
proof -
  have h1: "''bogus'' \<notin> set EmbeddingMode" by (simp add: EmbeddingMode_def)
  have h2: "cache_modes_ok (MEM empty_world)" by (simp add: cache_modes_ok_def empty_world_def)
  from unrecognized_mode_raises_before_encode [OF h1 h2, where env = toy_env and model = "''handle''"
      and model_name = "''instructor-base''" and ds = toy_data_a and instr = "''i''" and bs = 32]
  have a: "get_dataset_embedding toy_env ''handle'' ''instructor-base'' ''bogus'' toy_data_a ''i'' 32 empty_world
     = (Inl AssertionError, empty_world)"
    by (simp add: toy_data_a_def toy_rows_def)
  from unrecognized_mode_raises_before_encode [OF h1 h2, where env = toy_env and model = "''handle''"
      and model_name = "''instructor-base''" and ds = "\<lparr>rows = [], fingerprint = ''empty.jsonl''\<rparr>"
      and instr = "''i''" and bs = 32]
  have b: "get_dataset_embedding toy_env ''handle'' ''instructor-base'' ''bogus''
       \<lparr>rows = [], fingerprint = ''empty.jsonl''\<rparr> ''i'' 32 empty_world
     = (Inl (KeyError ''pair''), empty_world)"
    by simp
  have "encode_calls empty_world = []" by (simp add: empty_world_def)
  with h1 h2 a b show ?thesis by (intro conjI)
qed

section \<open>The embedding of all data files (lines 67-88): alignment\<close>

text \<open>
  The loop appends one dataset and one matrix per file, in the order of the files.
\<close>

lemma embed_files_append:
  "embed_files env args instr model files ad ae s = (Inr (dss, ess), s') \<Longrightarrow>
   \<exists>dn en. dss = ad @ dn \<and> ess = ae @ en \<and> length dn = length files \<and> length en = length files \<and>
     map (load_dataset env) files = map Inr dn"
proof (induction files arbitrary: ad ae s)
  case Nil
  then show ?case by simp
next
  case (Cons f fs)
  from Cons.prems obtain raw where raw: "load_dataset env f = Inr raw"
    by (cases "load_dataset env f") auto
  obtain r1 s1 where gde: "get_dataset_embedding env model (model_key args) (embedding_mode args)
      raw instr (batch_size args) s = (r1, s1)"
    by (cases "get_dataset_embedding env model (model_key args) (embedding_mode args)
      raw instr (batch_size args) s")
  from Cons.prems raw gde obtain emb where emb: "r1 = Inr emb"
    by (cases r1) auto
  from Cons.prems raw gde emb have rest:
    "embed_files env args instr model fs (ad @ [raw]) (ae @ [emb]) s1 = (Inr (dss, ess), s')"
    by simp
  from Cons.IH [OF rest] obtain dn en where
    "dss = (ad @ [raw]) @ dn" "ess = (ae @ [emb]) @ en" "length dn = length fs"
    "length en = length fs" "map (load_dataset env) fs = map Inr dn"
    by blast
  with raw have "dss = ad @ (raw # dn) \<and> ess = ae @ (emb # en) \<and>
    length (raw # dn) = length (f # fs) \<and> length (emb # en) = length (f # fs) \<and>
    map (load_dataset env) (f # fs) = map Inr (raw # dn)"
    by simp
  then show ?case by blast
qed

text \<open>
  The invariant of the loop: the matrix kept for a file holds, row by row, the vectors
  of the sentences derived from the rows of the file's dataset, and it is what the store
  holds for that dataset.
\<close>

lemma embed_files_blocks:
  assumes "model_embeds env model (f (model_key args))"
    and "embed_files env args instr model files ad ae s = (Inr (dss, ess), s')"
    and "cache_pointwise (SRC_INSTRUCT_ILLUSTRATION_PROMPT env) f (MEM s)"
    and "list_all2 (\<lambda>d e.
           (\<exists>sentences.
              Dataset_map (map_fn (SRC_INSTRUCT_ILLUSTRATION_PROMPT env) (embedding_mode args) instr)
                (rows d) = Inr sentences \<and>
              e = map (f (model_key args)) sentences) \<and>
           map_of (MEM s) (model_key args, embedding_mode args, d, instr) = Some e) ad ae"
  shows "cache_pointwise (SRC_INSTRUCT_ILLUSTRATION_PROMPT env) f (MEM s') \<and>
    list_all2 (\<lambda>d e.
       (\<exists>sentences.
          Dataset_map (map_fn (SRC_INSTRUCT_ILLUSTRATION_PROMPT env) (embedding_mode args) instr)
            (rows d) = Inr sentences \<and>
          e = map (f (model_key args)) sentences) \<and>
       map_of (MEM s') (model_key args, embedding_mode args, d, instr) = Some e) dss ess"
  using assms(2-4)
proof (induction files arbitrary: ad ae s)
  case Nil
  then show ?case by simp
next
  case (Cons fl fs)
  from Cons.prems(1) obtain raw where raw: "load_dataset env fl = Inr raw"
    by (cases "load_dataset env fl") auto
  obtain r1 s1 where gde: "get_dataset_embedding env model (model_key args) (embedding_mode args)
      raw instr (batch_size args) s = (r1, s1)"
    by (cases "get_dataset_embedding env model (model_key args) (embedding_mode args)
      raw instr (batch_size args) s")
  from Cons.prems(1) raw gde obtain emb where emb: "r1 = Inr emb"
    by (cases r1) auto
  from Cons.prems(1) raw gde emb have rest:
    "embed_files env args instr model fs (ad @ [raw]) (ae @ [emb]) s1 = (Inr (dss, ess), s')"
    by simp
  from get_dataset_embedding_pointwise [OF assms(1) gde Cons.prems(2)] emb
  have inv: "cache_pointwise (SRC_INSTRUCT_ILLUSTRATION_PROMPT env) f (MEM s1)"
    and vec: "\<exists>sentences.
        Dataset_map (map_fn (SRC_INSTRUCT_ILLUSTRATION_PROMPT env) (embedding_mode args) instr)
          (rows raw) = Inr sentences \<and>
        emb = map (f (model_key args)) sentences"
    by simp_all
  from gde emb have "get_dataset_embedding env model (model_key args) (embedding_mode args)
      raw instr (batch_size args) s = (Inr emb, s1)" by simp
  from get_dataset_embedding_stored [OF this]
  have st: "map_of (MEM s1) (model_key args, embedding_mode args, raw, instr) = Some emb" .
  have old: "list_all2 (\<lambda>d e.
       (\<exists>sentences.
          Dataset_map (map_fn (SRC_INSTRUCT_ILLUSTRATION_PROMPT env) (embedding_mode args) instr)
            (rows d) = Inr sentences \<and>
          e = map (f (model_key args)) sentences) \<and>
       map_of (MEM s1) (model_key args, embedding_mode args, d, instr) = Some e) ad ae"
    using Cons.prems(3) get_dataset_embedding_persists [OF gde]
    by (auto elim!: list_all2_mono)
  have "list_all2 (\<lambda>d e.
       (\<exists>sentences.
          Dataset_map (map_fn (SRC_INSTRUCT_ILLUSTRATION_PROMPT env) (embedding_mode args) instr)
            (rows d) = Inr sentences \<and>
          e = map (f (model_key args)) sentences) \<and>
       map_of (MEM s1) (model_key args, embedding_mode args, d, instr) = Some e)
       (ad @ [raw]) (ae @ [emb])"
    using old vec st by (simp add: list_all2_appendI)
  from Cons.IH [OF rest inv this] show ?case .
qed

text \<open>Row \<open>j\<close> of block \<open>k\<close> is row \<open>row_offset blocks k + j\<close> of the concatenation.\<close>

lemma nth_concat_block:
  "k < length blocks \<Longrightarrow> j < length (blocks ! k) \<Longrightarrow>
   concat blocks ! (row_offset blocks k + j) = blocks ! k ! j"
proof (induction blocks arbitrary: k)
  case Nil
  then show ?case by simp
next
  case (Cons b bs)
  show ?case
  proof (cases k)
    case 0
    with Cons.prems show ?thesis by (simp add: row_offset_def nth_append)
  next
    case (Suc k')
    with Cons.prems have "concat bs ! (row_offset bs k' + j) = bs ! k' ! j"
      by (intro Cons.IH) simp_all
    with Suc show ?thesis by (simp add: row_offset_def nth_append)
  qed
qed

lemma row_offset_same:
  assumes "list_all2 (\<lambda>d e. length e = length d) xss yss"
  shows "row_offset yss k = row_offset xss k"
proof -
  from assms have "map length yss = map length xss"
    by (induction xss yss rule: list_all2_induct) simp_all
  then show ?thesis by (simp add: row_offset_def take_map [symmetric])
qed

text \<open>Blocks related row by row have concatenations related row by row.\<close>

lemma list_all2_concat:
  "list_all2 (list_all2 P) xss yss \<Longrightarrow> list_all2 P (concat xss) (concat yss)"
  by (induction xss yss rule: list_all2_induct) (simp_all add: list_all2_appendI)

lemma embedded_rows:
  assumes "Dataset_map F rs = Inr sentences"
  shows "list_all2 (\<lambda>r v. \<exists>sent. F r = Inr sent \<and> v = g sent) rs (map g sentences)"
  using Dataset_map_rows [OF assms]
  by (simp add: list_all2_map2) (erule list_all2_mono, blast)


text \<open>What \<open>get_dataset_embeddings\<close> has done when it returns.\<close>

lemma get_dataset_embeddings_Inr:
  assumes "get_dataset_embeddings env args instr model s = (Inr (dataset, embeddings), s')"
  shows "\<exists>dss ess.
    embed_files env args instr model (data_files args) [] [] s = (Inr (dss, ess), s') \<and>
    concatenate_datasets env dss = Inr dataset \<and> np_concatenate env ess = Inr embeddings \<and>
    rows dataset = concat (map rows dss) \<and> embeddings = concat ess"
proof -
  obtain r0 s0 where loop:
    "embed_files env args instr model (data_files args) [] [] s = (r0, s0)"
    by (cases "embed_files env args instr model (data_files args) [] [] s")
  from assms loop obtain dss ess where r0: "r0 = Inr (dss, ess)"
    by (cases r0) (auto simp: get_dataset_embeddings_def)
  from assms loop r0 have "s' = s0" and d: "concatenate_datasets env dss = Inr dataset"
    and e: "np_concatenate env ess = Inr embeddings"
    by (auto simp: get_dataset_embeddings_def split: sum.splits)
  moreover from d have "rows dataset = concat (map rows dss)"
    by (auto simp: concatenate_datasets_def split: if_splits)
  moreover from e have "embeddings = concat ess"
    by (auto simp: np_concatenate_def split: if_splits)
  ultimately show ?thesis using loop r0 by blast
qed

text \<open>
  C1. Let \<open>f name\<close> be what the model called \<open>name\<close> computes for one sentence, let the
  model of the run return, for any batch size, the list of these vectors in the order
  of its sentences, and let the store hold only such matrices (the empty store, or any
  store the script has filled). Then whenever \<open>get_dataset_embeddings\<close> returns, for
  any list of data files, the matrix has as many rows as the dataset, and row \<open>i\<close> of
  the matrix is the vector of the sentence derived from row \<open>i\<close> of the dataset. The
  dataset is the concatenation of the loaded files in file order, the matrix is the
  concatenation, in the same order, of one block per file, the block of a file has as
  many rows as the file and is the matrix stored for that file's dataset, and row \<open>j\<close>
  of file \<open>k\<close> and row \<open>j\<close> of its block sit at the same position of the dataset and of
  the matrix. The store again holds only such matrices.
\<close>

theorem embeddings_aligned_with_dataset:
  assumes "model_embeds env model (f (model_key args))"
    and "cache_pointwise (SRC_INSTRUCT_ILLUSTRATION_PROMPT env) f (MEM s)"
    and "get_dataset_embeddings env args instr model s = (Inr (dataset, embeddings), s')"
  shows "length embeddings = length (rows dataset) \<and>
    (\<forall>i<length (rows dataset). \<exists>sent.
       map_fn (SRC_INSTRUCT_ILLUSTRATION_PROMPT env) (embedding_mode args) instr (rows dataset ! i)
         = Inr sent \<and>
       embeddings ! i = f (model_key args) sent) \<and>
    (\<exists>dss ess.
       map (load_dataset env) (data_files args) = map Inr dss \<and>
       rows dataset = concat (map rows dss) \<and> embeddings = concat ess \<and>
       length ess = length dss \<and>
       (\<forall>k<length dss.
          length (ess ! k) = length (rows (dss ! k)) \<and>
          map_of (MEM s') (model_key args, embedding_mode args, dss ! k, instr) = Some (ess ! k) \<and>
          (\<forall>j<length (rows (dss ! k)).
             rows dataset ! (row_offset (map rows dss) k + j) = rows (dss ! k) ! j \<and>
             embeddings ! (row_offset (map rows dss) k + j) = ess ! k ! j))) \<and>
    cache_pointwise (SRC_INSTRUCT_ILLUSTRATION_PROMPT env) f (MEM s')"
proof -
  let ?F = "map_fn (SRC_INSTRUCT_ILLUSTRATION_PROMPT env) (embedding_mode args) instr"
  let ?g = "f (model_key args)"
  let ?R = "\<lambda>r v. \<exists>sent. ?F r = Inr sent \<and> v = ?g sent"
  from get_dataset_embeddings_Inr [OF assms(3)] obtain dss ess where
    loop: "embed_files env args instr model (data_files args) [] [] s = (Inr (dss, ess), s')"
    and res: "rows dataset = concat (map rows dss)" "embeddings = concat ess"
    by blast
  from embed_files_append [OF loop] have loads:
    "map (load_dataset env) (data_files args) = map Inr dss" by auto
  from embed_files_blocks [OF assms(1) loop assms(2)]
  have inv: "cache_pointwise (SRC_INSTRUCT_ILLUSTRATION_PROMPT env) f (MEM s')"
    and blocks: "list_all2 (\<lambda>d e.
       (\<exists>sentences. Dataset_map ?F (rows d) = Inr sentences \<and> e = map ?g sentences) \<and>
       map_of (MEM s') (model_key args, embedding_mode args, d, instr) = Some e) dss ess"
    by simp_all
  from blocks have len: "length ess = length dss" by (simp add: list_all2_lengthD)
  have rowwise: "list_all2 (list_all2 ?R) (map rows dss) ess"
  proof -
    have "list_all2 ?R (rows d) e"
      if "(\<exists>sentences. Dataset_map ?F (rows d) = Inr sentences \<and> e = map ?g sentences) \<and>
       map_of (MEM s') (model_key args, embedding_mode args, d, instr) = Some e" for d e
    proof -
      from that obtain sentences where "Dataset_map ?F (rows d) = Inr sentences"
        "e = map ?g sentences" by blast
      with embedded_rows [of ?F "rows d" sentences ?g] show ?thesis by simp
    qed
    with blocks have "list_all2 (\<lambda>d e. list_all2 ?R (rows d) e) dss ess"
      by (auto elim!: list_all2_mono)
    then show ?thesis by (simp add: list_all2_map1)
  qed
  from list_all2_concat [OF rowwise] res
  have all: "list_all2 ?R (rows dataset) embeddings" by simp
  then have length: "length embeddings = length (rows dataset)"
    by (simp add: list_all2_lengthD)
  from all have pointwise: "\<forall>i<length (rows dataset). \<exists>sent.
       ?F (rows dataset ! i) = Inr sent \<and> embeddings ! i = ?g sent"
    by (simp add: list_all2_conv_all_nth)
  from rowwise have lens: "list_all2 (\<lambda>d e. length e = length d) (map rows dss) ess"
    by (rule list_all2_mono) (simp add: list_all2_lengthD)
  have per_file: "length (ess ! k) = length (rows (dss ! k)) \<and>
          map_of (MEM s') (model_key args, embedding_mode args, dss ! k, instr) = Some (ess ! k) \<and>
          (\<forall>j<length (rows (dss ! k)).
             rows dataset ! (row_offset (map rows dss) k + j) = rows (dss ! k) ! j \<and>
             embeddings ! (row_offset (map rows dss) k + j) = ess ! k ! j)"
    if k: "k < length dss" for k
  proof -
    from lens k have b1: "length (ess ! k) = length (rows (dss ! k))"
      by (simp add: list_all2_conv_all_nth)
    from blocks k have b2:
      "map_of (MEM s') (model_key args, embedding_mode args, dss ! k, instr) = Some (ess ! k)"
      by (simp add: list_all2_conv_all_nth)
    have "rows dataset ! (row_offset (map rows dss) k + j) = rows (dss ! k) ! j \<and>
        embeddings ! (row_offset (map rows dss) k + j) = ess ! k ! j"
      if j: "j < length (rows (dss ! k))" for j
    proof -
      from k j have "concat (map rows dss) ! (row_offset (map rows dss) k + j)
          = map rows dss ! k ! j"
        by (intro nth_concat_block) simp_all
      moreover from k j len b1 have "concat ess ! (row_offset ess k + j) = ess ! k ! j"
        by (intro nth_concat_block) simp_all
      ultimately show ?thesis using res row_offset_same [OF lens, of k] k by simp
    qed
    with b1 b2 show ?thesis by blast
  qed
  from length pointwise loads res len per_file inv show ?thesis by blast
qed

lemma model_embeds_toy_env: "model_embeds toy_env model (toy_embed model_name)"
  by (simp add: model_embeds_def toy_env_def toy_embed_def)

text \<open>
  The two files of the small instance on the empty store: three rows, three vectors, and
  the third vector is that of the sentence of the third row.
\<close>

theorem embeddings_aligned_with_dataset_witness:
  "(model_embeds toy_env ''handle'' (toy_embed (model_key toy_args)) \<and>
    cache_pointwise (SRC_INSTRUCT_ILLUSTRATION_PROMPT toy_env) toy_embed (MEM empty_world)) \<and>
   get_dataset_embeddings toy_env toy_args ''i'' ''handle'' empty_world
     = (Inr (\<lparr>rows = toy_rows @ toy_rows_b, fingerprint = ''a.jsonlb.jsonl''\<rparr>,
             [[1, 0, 0], [0, 0, 1], [0, 1, 0]]),
        \<lparr>MEM = [((''instructor-base'', ''problem'', toy_data_b, ''i''), [[0, 1, 0]]),
                ((''instructor-base'', ''problem'', toy_data_a, ''i''), [[1, 0, 0], [0, 0, 1]])],
         encode_calls = [(''handle'', [(''i'', ''a1''), (''i'', ''c2'')], 32),
                         (''handle'', [(''i'', ''b3'')], 32)]\<rparr>) \<and>
   length [[1, 0, 0], [0, 0, 1], [0, 1, 0 :: int]] = length (toy_rows @ toy_rows_b) \<and>
   map_fn (SRC_INSTRUCT_ILLUSTRATION_PROMPT toy_env) (embedding_mode toy_args) ''i''
       ((toy_rows @ toy_rows_b) ! 2) = Inr (''i'', ''b3'') \<and>
   [[1, 0, 0], [0, 0, 1], [0, 1, 0]] ! 2 = toy_embed (model_key toy_args) (''i'', ''b3'') \<and>
   row_offset [toy_rows, toy_rows_b] 1 = 2 \<and>
   (toy_rows @ toy_rows_b) ! 2 = toy_rows_b ! 0"
proof -
  let ?D = "\<lparr>rows = toy_rows @ toy_rows_b, fingerprint = ''a.jsonlb.jsonl''\<rparr>"
  let ?E = "[[1, 0, 0], [0, 0, 1], [0, 1, 0 :: int]]"
  have h1: "model_embeds toy_env ''handle'' (toy_embed (model_key toy_args))"
    by (rule model_embeds_toy_env)
  have h2: "cache_pointwise (SRC_INSTRUCT_ILLUSTRATION_PROMPT toy_env) toy_embed (MEM empty_world)"
    by (simp add: cache_pointwise_def empty_world_def)
  have run: "get_dataset_embeddings toy_env toy_args ''i'' ''handle'' empty_world
     = (Inr (?D, ?E),
        \<lparr>MEM = [((''instructor-base'', ''problem'', toy_data_b, ''i''), [[0, 1, 0]]),
                ((''instructor-base'', ''problem'', toy_data_a, ''i''), [[1, 0, 0], [0, 0, 1]])],
         encode_calls = [(''handle'', [(''i'', ''a1''), (''i'', ''c2'')], 32),
                         (''handle'', [(''i'', ''b3'')], 32)]\<rparr>)"
    by (simp add: get_dataset_embeddings_def concatenate_datasets_def np_concatenate_def
        get_dataset_embedding_def embedding_body_def map_fn_def getitem_def cache_key_of_def
        toy_run_defs)
  note inst = embeddings_aligned_with_dataset [OF h1 h2 run]
  from inst have len: "length ?E = length (toy_rows @ toy_rows_b)" by simp
  have "2 < length (rows ?D)" by (simp add: toy_rows_def toy_rows_b_def)
  with inst obtain sent where
    sent: "map_fn (SRC_INSTRUCT_ILLUSTRATION_PROMPT toy_env) (embedding_mode toy_args) ''i''
       (rows ?D ! 2) = Inr sent" "?E ! 2 = toy_embed (model_key toy_args) sent"
    by blast
  have row: "map_fn (SRC_INSTRUCT_ILLUSTRATION_PROMPT toy_env) (embedding_mode toy_args) ''i''
       ((toy_rows @ toy_rows_b) ! 2) = Inr (''i'', ''b3'')"
    by (simp add: map_fn_def getitem_def toy_run_defs)
  with sent have vec: "?E ! 2 = toy_embed (model_key toy_args) (''i'', ''b3'')" by simp
  have pos: "row_offset [toy_rows, toy_rows_b] 1 = 2" "(toy_rows @ toy_rows_b) ! 2 = toy_rows_b ! 0"
    by (simp_all add: row_offset_def toy_rows_def toy_rows_b_def)
  from h1 h2 run len row vec pos show ?thesis by (intro conjI)
qed

text \<open>
  C7, as the code has it. Nothing is verified after the concatenation: when the loop has
  loaded and embedded every file and the two concatenations return, the combined dataset
  and the combined matrix are returned as they are, the rows of the datasets and the
  rows of the matrices each in list order, whatever their lengths.
\<close>

theorem concatenation_is_unchecked:
  assumes "embed_files env args instr model (data_files args) [] [] s = (Inr (dss, ess), s')"
    and "concatenate_datasets env dss = Inr d"
    and "np_concatenate env ess = Inr m"
  shows "get_dataset_embeddings env args instr model s = (Inr (d, m), s') \<and>
    rows d = concat (map rows dss) \<and> m = concat ess"
proof -
  from assms have "get_dataset_embeddings env args instr model s = (Inr (d, m), s')"
    by (simp add: get_dataset_embeddings_def)
  moreover from assms(2) have "rows d = concat (map rows dss)"
    by (auto simp: concatenate_datasets_def split: if_splits)
  moreover from assms(3) have "m = concat ess"
    by (auto simp: np_concatenate_def split: if_splits)
  ultimately show ?thesis by simp
qed

text \<open>
  With the model that returns a row too few, the loop ends with blocks of 1 and 0 rows
  for files of 2 and 1 rows, and the concatenations are returned.
\<close>

theorem concatenation_is_unchecked_witness:
  "embed_files short_env toy_args ''i'' ''handle'' (data_files toy_args) [] [] empty_world
     = (Inr ([toy_data_a, toy_data_b], [[[1, 0, 0]], []]),
        \<lparr>MEM = [((''instructor-base'', ''problem'', toy_data_b, ''i''), []),
                ((''instructor-base'', ''problem'', toy_data_a, ''i''), [[1, 0, 0]])],
         encode_calls = [(''handle'', [(''i'', ''a1''), (''i'', ''c2'')], 32),
                         (''handle'', [(''i'', ''b3'')], 32)]\<rparr>) \<and>
   concatenate_datasets short_env [toy_data_a, toy_data_b]
     = Inr \<lparr>rows = toy_rows @ toy_rows_b, fingerprint = ''a.jsonlb.jsonl''\<rparr> \<and>
   np_concatenate short_env [[[1, 0, 0]], []] = Inr [[1, 0, 0]] \<and>
   get_dataset_embeddings short_env toy_args ''i'' ''handle'' empty_world
     = (Inr (\<lparr>rows = toy_rows @ toy_rows_b, fingerprint = ''a.jsonlb.jsonl''\<rparr>, [[1, 0, 0]]),
        \<lparr>MEM = [((''instructor-base'', ''problem'', toy_data_b, ''i''), []),
                ((''instructor-base'', ''problem'', toy_data_a, ''i''), [[1, 0, 0]])],
         encode_calls = [(''handle'', [(''i'', ''a1''), (''i'', ''c2'')], 32),
                         (''handle'', [(''i'', ''b3'')], 32)]\<rparr>)"
proof -
  have loop: "embed_files short_env toy_args ''i'' ''handle'' (data_files toy_args) [] [] empty_world
     = (Inr ([toy_data_a, toy_data_b], [[[1, 0, 0]], []]),
        \<lparr>MEM = [((''instructor-base'', ''problem'', toy_data_b, ''i''), []),
                ((''instructor-base'', ''problem'', toy_data_a, ''i''), [[1, 0, 0]])],
         encode_calls = [(''handle'', [(''i'', ''a1''), (''i'', ''c2'')], 32),
                         (''handle'', [(''i'', ''b3'')], 32)]\<rparr>)"
    by (simp add: get_dataset_embedding_def embedding_body_def
        map_fn_def getitem_def cache_key_of_def toy_run_defs)
  have d: "concatenate_datasets short_env [toy_data_a, toy_data_b]
     = Inr \<lparr>rows = toy_rows @ toy_rows_b, fingerprint = ''a.jsonlb.jsonl''\<rparr>"
    by (simp add: concatenate_datasets_def toy_run_defs)
  have m: "np_concatenate short_env [[[1, 0, 0]], []] = Inr [[1, 0, 0]]"
    by (simp add: np_concatenate_def toy_run_defs)
  note concatenation_is_unchecked [OF loop d m, THEN conjunct1]
  with loop d m show ?thesis by (intro conjI)
qed

text \<open>
  C7 as stated fails: with that model the dataset has 3 rows and the matrix 1, no
  assertion fires, and the run of \<open>main\<close> with one cluster ends with the saved plot.
\<close>

theorem length_mismatch_is_plotted:
  "fst (get_dataset_embeddings short_env (toy_args\<lparr>n_clusters := Some 1\<rparr>)
          ''Represent the problem'' ''hkunlp/instructor-base'' empty_world)
     = Inr (\<lparr>rows = toy_rows @ toy_rows_b, fingerprint = ''a.jsonlb.jsonl''\<rparr>, [[1, 0, 0]]) \<and>
   length (toy_rows @ toy_rows_b) = 3 \<and> length [[1, 0, 0 :: int]] = 1 \<and>
   fst (main short_env (toy_args\<lparr>n_clusters := Some 1\<rparr>) empty_world)
     = Inr [Scatter [1] [0] ''Cluster 1'', ScatterMarker 1 0, Legend,
            Title ''Visualization of Clusters'', Savefig ''clusters.png'']"
  by (simp add: toy_main_defs toy_run_defs upt_rec)

section \<open>The markers of the plot (lines 138-148)\<close>

text \<open>
  What the loop emits: per label, the series of the label's points and then one marker,
  whose coordinates are the means of all \<open>xs\<close> and of all \<open>ys\<close>.
\<close>

lemma plot_loop_cmds:
  "plot_loop env args method labels xs ys ls = Inr cmds \<Longrightarrow>
   length cmds = 2 * length ls \<and>
   filter is_marker cmds = replicate (length ls) (ScatterMarker (np_mean env xs) (np_mean env ys)) \<and>
   (\<forall>k<length ls.
      cmds ! (2 * k + 1) = ScatterMarker (np_mean env xs) (np_mean env ys) \<and>
      (\<exists>x y. np_take xs (np_where labels (ls ! k)) = Inr x \<and>
             np_take ys (np_where labels (ls ! k)) = Inr y \<and>
             cmds ! (2 * k) = Scatter x y (legend_label args method (ls ! k))))"
proof (induction ls arbitrary: cmds)
  case Nil
  then show ?case by simp
next
  case (Cons l ls)
  from Cons.prems obtain x y rest where
    x: "np_take xs (np_where labels l) = Inr x" and
    y: "np_take ys (np_where labels l) = Inr y" and
    rest: "plot_loop env args method labels xs ys ls = Inr rest" and
    cmds: "cmds = Scatter x y (legend_label args method l)
             # ScatterMarker (np_mean env xs) (np_mean env ys) # rest"
    by (auto simp: Let_def split: sum.splits)
  from Cons.IH [OF rest] have ih:
    "length rest = 2 * length ls"
    "filter is_marker rest = replicate (length ls) (ScatterMarker (np_mean env xs) (np_mean env ys))"
    "\<forall>k<length ls.
      rest ! (2 * k + 1) = ScatterMarker (np_mean env xs) (np_mean env ys) \<and>
      (\<exists>x y. np_take xs (np_where labels (ls ! k)) = Inr x \<and>
             np_take ys (np_where labels (ls ! k)) = Inr y \<and>
             rest ! (2 * k) = Scatter x y (legend_label args method (ls ! k)))"
    by simp_all
  have "cmds ! (2 * k + 1) = ScatterMarker (np_mean env xs) (np_mean env ys) \<and>
      (\<exists>x y. np_take xs (np_where labels ((l # ls) ! k)) = Inr x \<and>
             np_take ys (np_where labels ((l # ls) ! k)) = Inr y \<and>
             cmds ! (2 * k) = Scatter x y (legend_label args method ((l # ls) ! k)))"
    if k: "k < length (l # ls)" for k
  proof (cases k)
    case 0
    with x y cmds show ?thesis by simp
  next
    case (Suc k')
    with k ih(3) have "rest ! (2 * k' + 1) = ScatterMarker (np_mean env xs) (np_mean env ys) \<and>
      (\<exists>x y. np_take xs (np_where labels (ls ! k')) = Inr x \<and>
             np_take ys (np_where labels (ls ! k')) = Inr y \<and>
             rest ! (2 * k') = Scatter x y (legend_label args method (ls ! k')))"
      by simp
    with Suc cmds show ?thesis by simp
  qed
  with ih(1,2) cmds show ?case by simp
qed


text \<open>
  C8. In the plot, every label \<open>k\<close> of \<open>range(n)\<close> has its series at position \<open>2k\<close>,
  made of the projected points at the positions that carry the label, and exactly one
  marker after it at position \<open>2k + 1\<close>; the coordinates of the marker are the mean of
  the x values and the mean of the y values of the whole projection, not of the label's
  points, so the \<open>n\<close> markers are the only markers of the plot and all coincide.
\<close>

theorem centroid_markers_are_global_mean:
  assumes "TSNE_fit_transform env embeddings = Inr vis_dims"
    and "plot_groups env args method embeddings labels n = Inr cmds"
  shows "filter is_marker cmds
      = replicate (nat n) (ScatterMarker (np_mean env (map fst vis_dims)) (np_mean env (map snd vis_dims))) \<and>
    (\<forall>k<nat n.
       cmds ! (2 * k + 1)
         = ScatterMarker (np_mean env (map fst vis_dims)) (np_mean env (map snd vis_dims)) \<and>
       (\<exists>x y. np_take (map fst vis_dims) (np_where labels (int k)) = Inr x \<and>
              np_take (map snd vis_dims) (np_where labels (int k)) = Inr y \<and>
              cmds ! (2 * k) = Scatter x y (legend_label args method (int k))))"
proof -
  let ?xs = "map fst vis_dims" and ?ys = "map snd vis_dims"
  from assms obtain loop where loop:
    "plot_loop env args method labels ?xs ?ys (py_range n) = Inr loop"
    and cmds: "cmds = loop @ [Legend, Title ''Visualization of Clusters'', Savefig ''clusters.png'']"
    by (auto simp: plot_groups_def split: sum.splits)
  have len: "length (py_range n) = nat n" by (simp add: py_range_def)
  from plot_loop_cmds [OF loop] len have
    l1: "length loop = 2 * nat n" and
    l2: "filter is_marker loop = replicate (nat n) (ScatterMarker (np_mean env ?xs) (np_mean env ?ys))" and
    l3: "\<forall>k<nat n.
      loop ! (2 * k + 1) = ScatterMarker (np_mean env ?xs) (np_mean env ?ys) \<and>
      (\<exists>x y. np_take ?xs (np_where labels (py_range n ! k)) = Inr x \<and>
             np_take ?ys (np_where labels (py_range n ! k)) = Inr y \<and>
             loop ! (2 * k) = Scatter x y (legend_label args method (py_range n ! k)))"
    by simp_all
  have "cmds ! (2 * k + 1) = ScatterMarker (np_mean env ?xs) (np_mean env ?ys) \<and>
       (\<exists>x y. np_take ?xs (np_where labels (int k)) = Inr x \<and>
              np_take ?ys (np_where labels (int k)) = Inr y \<and>
              cmds ! (2 * k) = Scatter x y (legend_label args method (int k)))"
    if k: "k < nat n" for k
  proof -
    from k have r: "py_range n ! k = int k" by (simp add: py_range_def)
    from k l1 have "2 * k + 1 < length loop" "2 * k < length loop" by simp_all
    then have "cmds ! (2 * k + 1) = loop ! (2 * k + 1)" "cmds ! (2 * k) = loop ! (2 * k)"
      by (simp_all add: cmds nth_append)
    moreover from l3 k r obtain x y where
      "loop ! (2 * k + 1) = ScatterMarker (np_mean env ?xs) (np_mean env ?ys)"
      "np_take ?xs (np_where labels (int k)) = Inr x"
      "np_take ?ys (np_where labels (int k)) = Inr y"
      "loop ! (2 * k) = Scatter x y (legend_label args method (int k))"
      by auto
    ultimately show ?thesis by simp
  qed
  moreover from l2 have "filter is_marker cmds
      = replicate (nat n) (ScatterMarker (np_mean env ?xs) (np_mean env ?ys))"
    by (simp add: cmds)
  ultimately show ?thesis by blast
qed

text \<open>
  Three points in three clusters: each marker is at \<open>(1/3, 1/3)\<close>, while the mean of
  the x values of the first cluster alone is 1.
\<close>

theorem centroid_markers_are_global_mean_witness:
  "TSNE_fit_transform toy_env [[1, 0, 0], [0, 0, 1], [0, 1, 0]] = Inr [(1 :: real, 0 :: real), (0, 0), (0, 1)] \<and>
   plot_groups toy_env toy_args ''cluster'' [[1, 0, 0], [0, 0, 1], [0, 1, 0]] [0, 2, 1] 3
     = Inr [Scatter [1] [0] ''Cluster 1'', ScatterMarker (1 / 3) (1 / 3),
            Scatter [0] [1] ''Cluster 2'', ScatterMarker (1 / 3) (1 / 3),
            Scatter [0] [0] ''Cluster 3'', ScatterMarker (1 / 3) (1 / 3),
            Legend, Title ''Visualization of Clusters'', Savefig ''clusters.png''] \<and>
   np_mean toy_env (map fst [(1 :: real, 0 :: real), (0, 0), (0, 1)]) = 1 / 3 \<and>
   np_mean toy_env (map snd [(1 :: real, 0 :: real), (0, 0), (0, 1)]) = 1 / 3 \<and>
   np_mean toy_env [1] = 1 \<and>
   filter is_marker
     [Scatter [1] [0] ''Cluster 1'', ScatterMarker (1 / 3) (1 / 3),
      Scatter [0] [1] ''Cluster 2'', ScatterMarker (1 / 3) (1 / 3),
      Scatter [0] [0] ''Cluster 3'', ScatterMarker (1 / 3) (1 / 3),
      Legend, Title ''Visualization of Clusters'', Savefig ''clusters.png'']
     = replicate (nat 3) (ScatterMarker (np_mean toy_env (map fst [(1 :: real, 0 :: real), (0, 0), (0, 1)]))
         (np_mean toy_env (map snd [(1 :: real, 0 :: real), (0, 0), (0, 1)])))"
proof -
  have h1: "TSNE_fit_transform toy_env [[1, 0, 0], [0, 0, 1], [0, 1, 0]]
      = Inr [(1 :: real, 0 :: real), (0, 0), (0, 1)]"
    by (simp add: toy_env_def)
  have h2: "plot_groups toy_env toy_args ''cluster'' [[1, 0, 0], [0, 0, 1], [0, 1, 0]] [0, 2, 1] 3
     = Inr [Scatter [1] [0] ''Cluster 1'', ScatterMarker (1 / 3) (1 / 3),
            Scatter [0] [1] ''Cluster 2'', ScatterMarker (1 / 3) (1 / 3),
            Scatter [0] [0] ''Cluster 3'', ScatterMarker (1 / 3) (1 / 3),
            Legend, Title ''Visualization of Clusters'', Savefig ''clusters.png'']"
    by (simp add: plot_groups_def py_range_def np_where_def np_take_def legend_label_def
        str_int_def upt_rec toy_env_def)
  have m: "np_mean toy_env (map fst [(1 :: real, 0 :: real), (0, 0), (0, 1)]) = 1 / 3"
    "np_mean toy_env (map snd [(1 :: real, 0 :: real), (0, 0), (0, 1)]) = 1 / 3"
    "np_mean toy_env [1] = 1"
    by (simp_all add: toy_env_def)
  note centroid_markers_are_global_mean [OF h1 h2, THEN conjunct1]
  with h1 h2 m show ?thesis by (intro conjI)
qed

section \<open>The choice of the strategy (lines 93-99)\<close>

text \<open>
  The pipeline reads only the data files, the model key, the mode and the batch size of
  the arguments; the plot reads the queries, and only under the query strategy.
\<close>

lemma embed_files_args_cong:
  assumes "model_key a1 = model_key a2" and "embedding_mode a1 = embedding_mode a2"
    and "batch_size a1 = batch_size a2"
  shows "embed_files env a1 instr model files ad ae s = embed_files env a2 instr model files ad ae s"
proof (induction files arbitrary: ad ae s)
  case Nil
  show ?case by simp
next
  case (Cons f fs)
  show ?case
  proof (cases "load_dataset env f")
    case (Inl e)
    then show ?thesis by simp
  next
    case (Inr raw)
    obtain r1 s1 where gde: "get_dataset_embedding env model (model_key a2) (embedding_mode a2)
        raw instr (batch_size a2) s = (r1, s1)"
      by (cases "get_dataset_embedding env model (model_key a2) (embedding_mode a2)
        raw instr (batch_size a2) s")
    with Inr assms Cons.IH show ?thesis by (cases r1) simp_all
  qed
qed

lemma get_dataset_embeddings_args_cong:
  assumes "data_files a1 = data_files a2" and "model_key a1 = model_key a2"
    and "embedding_mode a1 = embedding_mode a2" and "batch_size a1 = batch_size a2"
  shows "get_dataset_embeddings env a1 instr model s = get_dataset_embeddings env a2 instr model s"
  using embed_files_args_cong [OF assms(2-4), of env instr model "data_files a2" "[]" "[]" s] assms(1)
  by (simp add: get_dataset_embeddings_def)

lemma plot_loop_args_cong:
  assumes "method = ''cluster'' \<or> queries a1 = queries a2"
  shows "plot_loop env a1 method labels xs ys ls = plot_loop env a2 method labels xs ys ls"
proof (induction ls)
  case Nil
  show ?case by simp
next
  case (Cons l ls)
  from assms have "legend_label a1 method l = legend_label a2 method l"
    by (auto simp: legend_label_def)
  with Cons.IH show ?case by (simp add: Let_def split: sum.splits)
qed

lemma plot_groups_args_cong:
  assumes "method = ''cluster'' \<or> queries a1 = queries a2"
  shows "plot_groups env a1 method embeddings labels n = plot_groups env a2 method embeddings labels n"
  by (simp add: plot_groups_def plot_loop_args_cong [OF assms] cong: sum.case_cong)

text \<open>
  C10. With an empty list of queries a supplied \<open>query_instruction\<close> is accepted and
  ignored: the validation gives what it gives without it (the cluster strategy when a
  cluster count is supplied, the assertion of line 93 otherwise), and the whole run,
  result and state, is the same as with the \<open>query_instruction\<close> the arguments had.
\<close>

theorem query_instruction_ignored_without_queries:
  assumes "queries args = []"
  shows "validate (args\<lparr>query_instruction := qi\<rparr>)
      = (if n_clusters args = None then Inl AssertionError else Inr ''cluster'') \<and>
    main env (args\<lparr>query_instruction := qi\<rparr>) s = main env args s"
proof -
  let ?a = "args\<lparr>query_instruction := qi\<rparr>"
  have v': "validate ?a = (if n_clusters args = None then Inl AssertionError else Inr ''cluster'')"
    using assms by (simp add: validate_def)
  have v: "validate args = (if n_clusters args = None then Inl AssertionError else Inr ''cluster'')"
    using assms by (simp add: validate_def)
  have g: "get_dataset_embeddings env ?a instr model s
      = get_dataset_embeddings env args instr model s" for instr model
    by (rule get_dataset_embeddings_args_cong) simp_all
  have c: "cluster_labels env ?a embeddings = cluster_labels env args embeddings" for embeddings
    by (simp add: cluster_labels_def kmeans_assign_def)
  have p: "plot_groups env ?a ''cluster'' embeddings labels n
      = plot_groups env args ''cluster'' embeddings labels n" for embeddings labels n
    by (rule plot_groups_args_cong) simp
  have "main env ?a s = main env args s"
    by (cases "n_clusters args")
       (simp_all add: main_def v v' g c p cong: sum.case_cong prod.case_cong)
  with v' show ?thesis by simp
qed


text \<open>The cluster run of the small instance, with and without a query instruction.\<close>

theorem query_instruction_ignored_without_queries_witness:
  "queries toy_args = [] \<and>
   validate (toy_args\<lparr>query_instruction := Some ''Represent the topic''\<rparr>) = Inr ''cluster'' \<and>
   main toy_env (toy_args\<lparr>query_instruction := Some ''Represent the topic''\<rparr>) empty_world
     = main toy_env toy_args empty_world \<and>
   fst (main toy_env toy_args empty_world)
     = Inr [Scatter [1] [0] ''Cluster 1'', ScatterMarker (1 / 3) (1 / 3),
            Scatter [0] [1] ''Cluster 2'', ScatterMarker (1 / 3) (1 / 3),
            Scatter [0] [0] ''Cluster 3'', ScatterMarker (1 / 3) (1 / 3),
            Legend, Title ''Visualization of Clusters'', Savefig ''clusters.png'']"
proof -
  have h: "queries toy_args = []" by (simp add: toy_args_def)
  from query_instruction_ignored_without_queries [OF h, of "Some ''Represent the topic''" toy_env empty_world]
  have a: "validate (toy_args\<lparr>query_instruction := Some ''Represent the topic''\<rparr>) = Inr ''cluster''"
    and b: "main toy_env (toy_args\<lparr>query_instruction := Some ''Represent the topic''\<rparr>) empty_world
     = main toy_env toy_args empty_world"
    by (simp_all add: toy_args_def)
  have c: "fst (main toy_env toy_args empty_world)
     = Inr [Scatter [1] [0] ''Cluster 1'', ScatterMarker (1 / 3) (1 / 3),
            Scatter [0] [1] ''Cluster 2'', ScatterMarker (1 / 3) (1 / 3),
            Scatter [0] [0] ''Cluster 3'', ScatterMarker (1 / 3) (1 / 3),
            Legend, Title ''Visualization of Clusters'', Savefig ''clusters.png'']"
    by (simp add: toy_main_defs toy_run_defs upt_rec)
  from h a b c show ?thesis by (intro conjI)
qed

text \<open>
  C4, as the code has it. Supplying neither queries nor a cluster count raises
  \<open>AssertionError\<close> before any work: the state is unchanged. Supplying queries selects
  the nearest-query strategy whether or not a cluster count is supplied as well: the
  validation fails only when \<open>query_instruction\<close> is missing, and the cluster count
  changes neither the validation nor the run.
\<close>

theorem strategy_selection:
  "(queries args = [] \<and> n_clusters args = None \<longrightarrow>
      validate args = Inl AssertionError \<and> main env args s = (Inl AssertionError, s)) \<and>
   (queries args \<noteq> [] \<longrightarrow>
      validate args = (if query_instruction args = None then Inl AssertionError else Inr ''query'') \<and>
      validate (args\<lparr>n_clusters := nc\<rparr>) = validate args \<and>
      main env (args\<lparr>n_clusters := nc\<rparr>) s = main env args s)"
proof -
  have neither: "validate args = Inl AssertionError \<and> main env args s = (Inl AssertionError, s)"
    if "queries args = [] \<and> n_clusters args = None"
    using that by (simp add: main_def validate_def)
  have both: "validate args
        = (if query_instruction args = None then Inl AssertionError else Inr ''query'') \<and>
      validate (args\<lparr>n_clusters := nc\<rparr>) = validate args \<and>
      main env (args\<lparr>n_clusters := nc\<rparr>) s = main env args s"
    if q: "queries args \<noteq> []"
  proof -
    let ?a = "args\<lparr>n_clusters := nc\<rparr>"
    have v: "validate args
        = (if query_instruction args = None then Inl AssertionError else Inr ''query'')"
      using q by (simp add: validate_def)
    have v': "validate ?a = validate args"
      using q by (simp add: validate_def)
    have g: "get_dataset_embeddings env ?a instr model s
        = get_dataset_embeddings env args instr model s" for instr model
      by (rule get_dataset_embeddings_args_cong) simp_all
    have c: "query_labels env ?a model embeddings t = query_labels env args model embeddings t"
      for model embeddings t
      by (simp add: query_labels_def query_assign_def cong: option.case_cong)
    have p: "plot_groups env ?a ''query'' embeddings labels n
        = plot_groups env args ''query'' embeddings labels n" for embeddings labels n
      by (rule plot_groups_args_cong) simp
    have "main env ?a s = main env args s"
      by (cases "query_instruction args")
         (simp_all add: main_def v v' g c p cong: sum.case_cong prod.case_cong)
    with v v' show ?thesis by simp
  qed
  from neither both show ?thesis by blast
qed


text \<open>
  Neither queries nor a cluster count on the small instance, and the query arguments
  with and without a cluster count.
\<close>

theorem strategy_selection_witness:
  "(queries (toy_args\<lparr>n_clusters := None\<rparr>) = [] \<and> n_clusters (toy_args\<lparr>n_clusters := None\<rparr>) = None) \<and>
   main toy_env (toy_args\<lparr>n_clusters := None\<rparr>) empty_world = (Inl AssertionError, empty_world) \<and>
   queries toy_query_args \<noteq> [] \<and>
   validate (toy_query_args\<lparr>n_clusters := Some 2\<rparr>) = Inr ''query'' \<and>
   main toy_env (toy_query_args\<lparr>n_clusters := Some 2\<rparr>) empty_world
     = main toy_env toy_query_args empty_world"
proof -
  have n: "queries (toy_args\<lparr>n_clusters := None\<rparr>) = [] \<and>
      n_clusters (toy_args\<lparr>n_clusters := None\<rparr>) = None"
    by (simp add: toy_args_def)
  have q: "queries toy_query_args \<noteq> []" by (simp add: toy_query_args_def)
  note a = strategy_selection [where args = "toy_args\<lparr>n_clusters := None\<rparr>"
      and env = toy_env and s = empty_world, THEN conjunct1, rule_format, OF n, THEN conjunct2]
  note b = strategy_selection [where args = toy_query_args and nc = "Some 2"
      and env = toy_env and s = empty_world, THEN conjunct2, rule_format, OF q]
  from b have b1: "validate (toy_query_args\<lparr>n_clusters := Some 2\<rparr>) = Inr ''query''"
    by (simp add: toy_query_args_def)
  from b have b2: "main toy_env (toy_query_args\<lparr>n_clusters := Some 2\<rparr>) empty_world
     = main toy_env toy_query_args empty_world"
    by simp
  from n a q b1 b2 show ?thesis by blast
qed

text \<open>
  C4 as stated fails: with three queries and a cluster count of 3 the validation selects
  the query strategy and the run ends with the saved plot, labelled by the queries.
\<close>

theorem both_strategies_supplied_is_accepted:
  "queries (toy_args\<lparr>queries := [''a'', ''b'', ''c''], query_instruction := Some ''Represent the topic''\<rparr>) \<noteq> [] \<and>
   n_clusters (toy_args\<lparr>queries := [''a'', ''b'', ''c''], query_instruction := Some ''Represent the topic''\<rparr>) = Some 3 \<and>
   validate (toy_args\<lparr>queries := [''a'', ''b'', ''c''], query_instruction := Some ''Represent the topic''\<rparr>)
     = Inr ''query'' \<and>
   fst (main toy_env
          (toy_args\<lparr>queries := [''a'', ''b'', ''c''], query_instruction := Some ''Represent the topic''\<rparr>)
          empty_world)
     = Inr [Scatter [1] [0] ''a'', ScatterMarker (1 / 3) (1 / 3),
            Scatter [0] [1] ''b'', ScatterMarker (1 / 3) (1 / 3),
            Scatter [0] [0] ''c'', ScatterMarker (1 / 3) (1 / 3),
            Legend, Title ''Visualization of Clusters'', Savefig ''clusters.png'']"
  by (simp add: toy_main_defs toy_run_defs upt_rec)

section \<open>The check of the labels (lines 107-108 and 122-123)\<close>

text \<open>
  The two assertions pass exactly when there are labels, the greatest is \<open>n - 1\<close> and
  the least is 0; \<open>max()\<close> of no labels raises \<open>ValueError\<close>.
\<close>

lemma check_labels_iff:
  "check_labels labels n = Inr () \<longleftrightarrow>
   labels \<noteq> [] \<and> Max (set labels) = n - 1 \<and> Min (set labels) = 0"
  by (simp add: check_labels_def np_max_def np_min_def)

lemma check_labels_fails:
  "labels = [] \<or> Max (set labels) \<noteq> n - 1 \<or> Min (set labels) \<noteq> 0 \<Longrightarrow>
   check_labels labels n = Inl (if labels = [] then ValueError else AssertionError)"
  by (auto simp: check_labels_def np_max_def np_min_def)

lemma kmeans_assign_n:
  "kmeans_assign env args embeddings = Inr (labels, n) \<Longrightarrow> n_clusters args = Some n"
  by (auto simp: kmeans_assign_def split: option.splits sum.splits)

lemma query_assign_n:
  "query_assign env args model embeddings s = (Inr (labels, n), s') \<Longrightarrow>
   n = int (length (queries args))"
  by (auto simp: query_assign_def Let_def split: option.splits sum.splits)

text \<open>
  C3, as the code has it. In both strategies, once the run has assigned the labels
  (KMeans with \<open>n = n_clusters\<close>, nearest query with \<open>n\<close> the number of queries), a
  greatest label other than \<open>n - 1\<close> or a least label other than 0 ends the run with
  \<open>AssertionError\<close> (no labels at all: with \<open>ValueError\<close>) in the state the assignment
  left, and nothing is plotted. Only the two extremes are compared.
\<close>

theorem label_check_aborts_run:
  assumes "validate args = Inr method"
    and "INSTRUCTOR env (''hkunlp/'' @ model_key args) = Inr model"
    and "get_dataset_embeddings env args (instruction args) model s = (Inr (ds, embeddings), s1)"
    and "(if method = ''cluster'' then (kmeans_assign env args embeddings, s1)
          else query_assign env args model embeddings s1) = (Inr (labels, n), s2)"
    and "labels = [] \<or> Max (set labels) \<noteq> n - 1 \<or> Min (set labels) \<noteq> 0"
  shows "main env args s = (Inl (if labels = [] then ValueError else AssertionError), s2) \<and>
    (if method = ''cluster'' then n_clusters args = Some n else n = int (length (queries args)))"
proof (cases "method = ''cluster''")
  case True
  with assms(4) have k: "kmeans_assign env args embeddings = Inr (labels, n)" and s2: "s2 = s1"
    by simp_all
  from k check_labels_fails [OF assms(5)]
  have "cluster_labels env args embeddings = Inl (if labels = [] then ValueError else AssertionError)"
    by (simp add: cluster_labels_def)
  with assms(1-3) True s2 kmeans_assign_n [OF k] show ?thesis
    by (simp add: main_def)
next
  case False
  with assms(4) have q: "query_assign env args model embeddings s1 = (Inr (labels, n), s2)"
    by simp
  from q check_labels_fails [OF assms(5)]
  have "query_labels env args model embeddings s1
      = (Inl (if labels = [] then ValueError else AssertionError), s2)"
    by (simp add: query_labels_def)
  with assms(1-3) False query_assign_n [OF q] show ?thesis
    by (simp add: main_def)
qed


text \<open>
  The cluster strategy asked for 4 clusters with labels 0, 2, 1, and the query strategy
  with three queries whose only item is nearest to the second: both runs abort.
\<close>

theorem label_check_aborts_run_witness:
  "kmeans_assign toy_env (toy_args\<lparr>n_clusters := Some 4\<rparr>) [[1, 0, 0], [0, 0, 1], [0, 1, 0]]
     = Inr ([0, 2, 1], 4) \<and>
   Max (set [0, 2, 1 :: int]) \<noteq> 4 - 1 \<and>
   fst (main toy_env (toy_args\<lparr>n_clusters := Some 4\<rparr>) empty_world) = Inl AssertionError \<and>
   fst (query_assign toy_env (toy_query_args\<lparr>data_files := [''b.jsonl'']\<rparr>)
          ''hkunlp/instructor-base'' [[0, 1, 0]]
          (snd (get_dataset_embeddings toy_env (toy_query_args\<lparr>data_files := [''b.jsonl'']\<rparr>)
                  ''Represent the problem'' ''hkunlp/instructor-base'' empty_world)))
     = Inr ([1], 3) \<and>
   Min (set [1 :: int]) \<noteq> 0 \<and>
   fst (main toy_env (toy_query_args\<lparr>data_files := [''b.jsonl'']\<rparr>) empty_world)
     = Inl AssertionError"
proof -
  let ?A = "toy_args\<lparr>n_clusters := Some 4\<rparr>"
  let ?Q = "toy_query_args\<lparr>data_files := [''b.jsonl'']\<rparr>"
  let ?m = "''hkunlp/instructor-base''"
  let ?sA = "snd (get_dataset_embeddings toy_env ?A (instruction ?A) ?m empty_world)"
  let ?sQ = "snd (get_dataset_embeddings toy_env ?Q (instruction ?Q) ?m empty_world)"
  let ?sQ' = "snd (query_assign toy_env ?Q ?m [[0, 1, 0]] ?sQ)"
  have a1: "validate ?A = Inr ''cluster''" by (simp add: validate_def toy_args_def)
  have a2: "INSTRUCTOR toy_env (''hkunlp/'' @ model_key ?A) = Inr ?m"
    by (simp add: toy_env_def toy_args_def)
  have a3: "get_dataset_embeddings toy_env ?A (instruction ?A) ?m empty_world
      = (Inr (\<lparr>rows = toy_rows @ toy_rows_b, fingerprint = ''a.jsonlb.jsonl''\<rparr>,
              [[1, 0, 0], [0, 0, 1], [0, 1, 0]]), ?sA)"
    by (simp add: prod_eq_iff toy_main_defs toy_run_defs)
  have a4: "kmeans_assign toy_env ?A [[1, 0, 0], [0, 0, 1], [0, 1, 0]] = Inr ([0, 2, 1], 4)"
    by (simp add: kmeans_assign_def toy_run_defs)
  then have a4': "(if ''cluster'' = ''cluster''
        then (kmeans_assign toy_env ?A [[1, 0, 0], [0, 0, 1], [0, 1, 0]], ?sA)
        else query_assign toy_env ?A ?m [[1, 0, 0], [0, 0, 1], [0, 1, 0]] ?sA)
      = (Inr ([0, 2, 1], 4), ?sA)"
    by simp
  have a5: "Max (set [0, 2, 1 :: int]) \<noteq> 4 - 1" by simp
  then have a5': "[0, 2, 1 :: int] = [] \<or> Max (set [0, 2, 1 :: int]) \<noteq> 4 - 1 \<or>
      Min (set [0, 2, 1 :: int]) \<noteq> 0"
    by simp
  from label_check_aborts_run [OF a1 a2 a3 a4' a5']
  have a: "fst (main toy_env ?A empty_world) = Inl AssertionError" by simp
  have q1: "validate ?Q = Inr ''query''" by (simp add: validate_def toy_run_defs)
  have q2: "INSTRUCTOR toy_env (''hkunlp/'' @ model_key ?Q) = Inr ?m"
    by (simp add: toy_run_defs)
  have q3: "get_dataset_embeddings toy_env ?Q (instruction ?Q) ?m empty_world
      = (Inr (\<lparr>rows = toy_rows_b, fingerprint = ''b.jsonl''\<rparr>, [[0, 1, 0]]), ?sQ)"
    by (simp add: prod_eq_iff toy_main_defs toy_run_defs)
  have q4: "fst (query_assign toy_env ?Q ?m [[0, 1, 0]] ?sQ) = Inr ([1], 3)"
    by (simp add: toy_main_defs toy_run_defs)
  then have q4': "(if ''query'' = ''cluster''
        then (kmeans_assign toy_env ?Q [[0, 1, 0]], ?sQ)
        else query_assign toy_env ?Q ?m [[0, 1, 0]] ?sQ)
      = (Inr ([1], 3), ?sQ')"
    by (simp add: prod_eq_iff)
  have q5: "Min (set [1 :: int]) \<noteq> 0" by simp
  then have q5': "[1 :: int] = [] \<or> Max (set [1 :: int]) \<noteq> 3 - 1 \<or> Min (set [1 :: int]) \<noteq> 0"
    by simp
  from label_check_aborts_run [OF q1 q2 q3 q4' q5']
  have q: "fst (main toy_env ?Q empty_world) = Inl AssertionError" by simp
  have i: "instruction ?Q = ''Represent the problem''" by (simp add: toy_run_defs)
  from a4 a5 a q4 q5 q i show ?thesis by simp
qed

text \<open>
  C3 as stated fails: with three queries and items nearest to the first and the third
  only, the labels 0 and 2 do not cover 0, 1, 2, yet the least is 0 and the greatest is
  2, no assertion fires and the run ends with the saved plot, whose second series is
  empty.
\<close>

theorem gap_in_labels_is_plotted:
  "fst (query_assign toy_env toy_query_args ''hkunlp/instructor-base'' [[1, 0, 0], [0, 0, 1]]
          (snd (get_dataset_embeddings toy_env toy_query_args ''Represent the problem''
                  ''hkunlp/instructor-base'' empty_world)))
     = Inr ([0, 2], 3) \<and>
   1 \<in> set (py_range 3) \<and> 1 \<notin> set [0, 2 :: int] \<and>
   Min (set [0, 2 :: int]) = 0 \<and> Max (set [0, 2 :: int]) = 3 - 1 \<and>
   fst (main toy_env toy_query_args empty_world)
     = Inr [Scatter [1] [0] ''a'', ScatterMarker (1 / 2) 0,
            Scatter [] [] ''b'', ScatterMarker (1 / 2) 0,
            Scatter [0] [0] ''c'', ScatterMarker (1 / 2) 0,
            Legend, Title ''Visualization of Clusters'', Savefig ''clusters.png'']"
  by (simp add: toy_main_defs toy_run_defs upt_rec)

section \<open>The store across a whole run\<close>

text \<open>
  The two predicates on the store hold of the empty store and are kept by the loop over
  the files and by a whole run of \<open>main\<close>, whatever its result: they hold of every
  store that only this script has written, with models that compute what \<open>f\<close> says.
\<close>

lemma embed_files_modes_ok:
  "embed_files env args instr model files ad ae s = (r, s') \<Longrightarrow> cache_modes_ok (MEM s) \<Longrightarrow>
   cache_modes_ok (MEM s')"
proof (induction files arbitrary: ad ae s)
  case Nil
  then show ?case by simp
next
  case (Cons fl fs)
  show ?case
  proof (cases "load_dataset env fl")
    case (Inl e)
    with Cons.prems show ?thesis by auto
  next
    case (Inr raw)
    obtain r1 s1 where gde: "get_dataset_embedding env model (model_key args) (embedding_mode args)
        raw instr (batch_size args) s = (r1, s1)"
      by (cases "get_dataset_embedding env model (model_key args) (embedding_mode args)
        raw instr (batch_size args) s")
    from get_dataset_embedding_modes_ok [OF gde Cons.prems(2)] have ok: "cache_modes_ok (MEM s1)" .
    show ?thesis
    proof (cases r1)
      case (Inl e)
      with Cons.prems(1) Inr gde ok show ?thesis by auto
    next
      case (Inr emb)
      with Cons.prems(1) \<open>load_dataset env fl = Inr raw\<close> gde have
        "embed_files env args instr model fs (ad @ [raw]) (ae @ [emb]) s1 = (r, s')"
        by simp
      from Cons.IH [OF this ok] show ?thesis .
    qed
  qed
qed

lemma embed_files_pointwise:
  assumes "model_embeds env model (f (model_key args))"
  shows "embed_files env args instr model files ad ae s = (r, s') \<Longrightarrow>
   cache_pointwise (SRC_INSTRUCT_ILLUSTRATION_PROMPT env) f (MEM s) \<Longrightarrow>
   cache_pointwise (SRC_INSTRUCT_ILLUSTRATION_PROMPT env) f (MEM s')"
proof (induction files arbitrary: ad ae s)
  case Nil
  then show ?case by simp
next
  case (Cons fl fs)
  show ?case
  proof (cases "load_dataset env fl")
    case (Inl e)
    with Cons.prems show ?thesis by auto
  next
    case (Inr raw)
    obtain r1 s1 where gde: "get_dataset_embedding env model (model_key args) (embedding_mode args)
        raw instr (batch_size args) s = (r1, s1)"
      by (cases "get_dataset_embedding env model (model_key args) (embedding_mode args)
        raw instr (batch_size args) s")
    from get_dataset_embedding_pointwise [OF assms gde Cons.prems(2)]
    have ok: "cache_pointwise (SRC_INSTRUCT_ILLUSTRATION_PROMPT env) f (MEM s1)" by simp
    show ?thesis
    proof (cases r1)
      case (Inl e)
      with Cons.prems(1) Inr gde ok show ?thesis by auto
    next
      case (Inr emb)
      with Cons.prems(1) \<open>load_dataset env fl = Inr raw\<close> gde have
        "embed_files env args instr model fs (ad @ [raw]) (ae @ [emb]) s1 = (r, s')"
        by simp
      from Cons.IH [OF this ok] show ?thesis .
    qed
  qed
qed

lemma get_dataset_embeddings_MEM:
  assumes "get_dataset_embeddings env args instr model s = (r, s')"
  shows "\<exists>r0. embed_files env args instr model (data_files args) [] [] s = (r0, s')"
proof -
  obtain r0 s0 where loop: "embed_files env args instr model (data_files args) [] [] s = (r0, s0)"
    by (cases "embed_files env args instr model (data_files args) [] [] s")
  with assms have "s' = s0"
    by (cases r0) (auto simp: get_dataset_embeddings_def split: sum.splits)
  with loop show ?thesis by simp
qed

lemma query_labels_MEM:
  "query_labels env args model embeddings s = (r, s') \<Longrightarrow> MEM s' = MEM s"
  by (auto simp: query_labels_def query_assign_def Let_def
      split: option.splits sum.splits prod.splits)

lemma main_MEM:
  assumes "main env args s = (r, s')"
  shows "s' = s \<or> (\<exists>model r0 s1.
    INSTRUCTOR env (''hkunlp/'' @ model_key args) = Inr model \<and>
    embed_files env args (instruction args) model (data_files args) [] [] s = (r0, s1) \<and>
    MEM s' = MEM s1)"
proof (cases "validate args")
  case (Inl e)
  with assms show ?thesis by (simp add: main_def)
next
  case (Inr strategy)
  show ?thesis
  proof (cases "INSTRUCTOR env (''hkunlp/'' @ model_key args)")
    case (Inl e)
    with assms \<open>validate args = Inr strategy\<close> show ?thesis by (simp add: main_def)
  next
    case (Inr model)
    obtain r1 s1 where g: "get_dataset_embeddings env args (instruction args) model s = (r1, s1)"
      by (cases "get_dataset_embeddings env args (instruction args) model s")
    from get_dataset_embeddings_MEM [OF g] obtain r0 where
      loop: "embed_files env args (instruction args) model (data_files args) [] [] s = (r0, s1)"
      by blast
    have "MEM s' = MEM s1"
    proof (cases r1)
      case (Inl e)
      with assms \<open>validate args = Inr strategy\<close> Inr g show ?thesis by (simp add: main_def)
    next
      case r1: (Inr p)
      obtain ds embeddings where p: "p = (ds, embeddings)" by (cases p)
      show ?thesis
      proof (cases "strategy = ''cluster''")
        case True
        with assms \<open>validate args = Inr strategy\<close> Inr g r1 p show ?thesis
          by (cases "cluster_labels env args embeddings") (auto simp: main_def)
      next
        case False
        obtain r2 s2 where q: "query_labels env args model embeddings s1 = (r2, s2)"
          by (cases "query_labels env args model embeddings s1")
        with assms \<open>validate args = Inr strategy\<close> Inr g r1 p False have "s' = s2"
          by (cases r2) (auto simp: main_def)
        with query_labels_MEM [OF q] show ?thesis by simp
      qed
    qed
    with Inr loop show ?thesis by blast
  qed
qed

lemma main_keeps_cache_modes_ok:
  assumes "main env args s = (r, s')" and "cache_modes_ok (MEM s)"
  shows "cache_modes_ok (MEM s')"
  using main_MEM [OF assms(1)] assms(2) by (auto dest: embed_files_modes_ok)

lemma main_keeps_cache_pointwise:
  assumes "\<And>model. INSTRUCTOR env (''hkunlp/'' @ model_key args) = Inr model \<Longrightarrow>
      model_embeds env model (f (model_key args))"
    and "main env args s = (r, s')"
    and "cache_pointwise (SRC_INSTRUCT_ILLUSTRATION_PROMPT env) f (MEM s)"
  shows "cache_pointwise (SRC_INSTRUCT_ILLUSTRATION_PROMPT env) f (MEM s')"
proof -
  from main_MEM [OF assms(2)] show ?thesis
  proof (elim disjE exE conjE)
    assume "s' = s"
    with assms(3) show ?thesis by simp
  next
    fix model r0 s1
    assume m: "INSTRUCTOR env (''hkunlp/'' @ model_key args) = Inr model"
      and loop: "embed_files env args (instruction args) model (data_files args) [] [] s = (r0, s1)"
      and mem: "MEM s' = MEM s1"
    from embed_files_pointwise [OF assms(1) [OF m] loop assms(3)] mem show ?thesis by simp
  qed
qed

end
